theory Spec2Isabelle
  imports Main
begin

section \<open>Values that cross the function boundaries\<close>

text \<open>
  The repository is a Netlify function written in TypeScript. It receives a deploy
  notification, and projects it onto a GitHub commit status and a GitHub deployment.
  Everything the functions throw is a value here: \<open>Response message code\<close> is the class
  \<open>Response\<close> of \<open>netlify.mts\<close> (its constructor defaults are \<open>''''\<close> and \<open>500\<close>),
  \<open>Error message json\<close> is any instance of the built-in \<open>Error\<close>, and \<open>Other\<close> is any
  other thrown value. The boundary passes a caught \<open>Error\<close> to \<open>JSON.stringify\<close>: \<open>json\<close>
  is the text that call gives, and \<open>None\<close> when the call throws instead (the error holds a
  circular structure or a \<open>BigInt\<close> among its own enumerable properties).
\<close>

datatype thrown = Response string nat | Error string "string option" | Other

text \<open>The type \<open>NetlifyDeploy\<close> of \<open>netlify.mts\<close>; an absent or null field is \<open>None\<close>.\<close>

record NetlifyDeploy =
  nd_id :: string
  nd_state :: "string option"
  nd_name :: "string option"
  nd_branch :: "string option"
  nd_commit_ref :: "string option"
  nd_commit_url :: "string option"
  nd_context :: "string option"
  nd_error_message :: "string option"
  nd_updated_at :: "string option"
  nd_url :: "string option"
  nd_deploy_ssl_url :: "string option"

text \<open>
  The two parts of \<open>HandlerEvent\<close> the code reads: \<open>event.body\<close> and
  \<open>event.headers["x-webhook-signature"]\<close>.
\<close>

record HandlerEvent =
  ev_body :: "string option"
  ev_signature :: "string option"

record RepoInfo =
  owner :: string
  repo :: string

text \<open>The type \<open>CommitStatusContext\<close> of \<open>github.mts\<close>.\<close>

record CommitStatusContext =
  cs_context :: string
  cs_state :: string
  cs_description :: "string option"
  cs_targetUrl :: "string option"
  cs_createdAt :: string
  cs_creator :: "string option"

text \<open>
  A value read out of a JavaScript object literal by a computed key: a string the literal
  holds, or, for a key the literal does not hold itself, the member of
  \<open>Object.prototype\<close> of that name, which the literal inherits.
\<close>

datatype js_value = JString string | JInherited string

text \<open>A number in a template literal: its decimal digits.\<close>

definition digit :: "nat \<Rightarrow> char" where
  "digit n = ''0123456789'' ! n"

function decimal :: "nat \<Rightarrow> string" where
  "decimal n = (if n < 10 then [digit n] else decimal (n div 10) @ [digit (n mod 10)])"
  by pat_completeness auto
termination
  by (relation "measure (\<lambda>n. n)") auto

declare decimal.simps [simp del]

section \<open>State Mapper\<close>

text \<open>
  \<open>getCommitStatusDescription\<close> of \<open>github.mts\<close>: a \<open>switch\<close> on the state, with a
  default case.
\<close>

definition getCommitStatusDescription :: "string \<Rightarrow> string option \<Rightarrow> string" where
  "getCommitStatusDescription state errorMessage =
     (if state = ''building'' then ''Deploying...''
      else if state = ''ready'' then ''Deployment successful!''
      else ''Deployment failed '' @
             (case errorMessage of Some m \<Rightarrow> '': '' @ m | None \<Rightarrow> ''.''))"

text \<open>
  The names \<open>Object.prototype\<close> defines, which every object literal inherits.
\<close>

definition Object_prototype :: "string list" where
  "Object_prototype =
     [''constructor'', ''__defineGetter__'', ''__defineSetter__'', ''hasOwnProperty'',
      ''__lookupGetter__'', ''__lookupSetter__'', ''isPrototypeOf'',
      ''propertyIsEnumerable'', ''toString'', ''valueOf'', ''__proto__'',
      ''toLocaleString'']"

text \<open>
  \<open>literal[key]\<close>: the literal's own property, else the inherited member, else
  \<open>undefined\<close> (\<open>None\<close>).
\<close>

definition object_lookup :: "(string \<times> string) list \<Rightarrow> string \<Rightarrow> js_value option" where
  "object_lookup literal k =
     (case map_of literal k of
        Some v \<Rightarrow> Some (JString v)
      | None \<Rightarrow> if k \<in> set Object_prototype then Some (JInherited k) else None)"

text \<open>\<open>x ?? y\<close>.\<close>

definition nullish :: "'a option \<Rightarrow> 'a \<Rightarrow> 'a" where
  "nullish x y = (case x of Some v \<Rightarrow> v | None \<Rightarrow> y)"

text \<open>
  The state of the commit status (\<open>deployment.mts\<close>, lines 56 to 60) and of the
  deployment status (lines 138 to 142): an object literal indexed by \<open>deploy.state\<close>,
  with \<open>?? "error"\<close>.
\<close>

definition commitStatusState :: "string \<Rightarrow> js_value" where
  "commitStatusState state =
     nullish (object_lookup
       [(''building'', ''pending''), (''ready'', ''success''), (''error'', ''failure'')] state)
       (JString ''error'')"

definition deploymentStatusState :: "string \<Rightarrow> js_value" where
  "deploymentStatusState state =
     nullish (object_lookup
       [(''building'', ''in_progress''), (''ready'', ''success''), (''error'', ''failure'')] state)
       (JString ''error'')"

section \<open>Identity Resolver\<close>

text \<open>
  \<open>new URL(s)\<close> is the platform's: it throws a \<open>TypeError\<close> on a string that is no URL,
  and gives the host name and the path otherwise. It is a parameter of the model.
\<close>

record URL =
  hostname :: string
  pathname :: string

text \<open>\<open>s.split(c)\<close> for a one-character separator.\<close>

fun split_str :: "char \<Rightarrow> string \<Rightarrow> string list" where
  "split_str c [] = [[]]"
| "split_str c (x # xs) =
     (if x = c then [] # split_str c xs
      else (case split_str c xs of
              y # ys \<Rightarrow> (x # y) # ys
            | [] \<Rightarrow> [[x]]))"

text \<open>\<open>parseRepoInfoFromCommitUrl\<close> of \<open>github.mts\<close>.\<close>

definition parseRepoInfoFromCommitUrl ::
  "(string \<Rightarrow> thrown + URL) \<Rightarrow> string \<Rightarrow> thrown + RepoInfo" where
  "parseRepoInfoFromCommitUrl new_URL commitUrl =
     (case new_URL commitUrl of
        Inl e \<Rightarrow> Inl e
      | Inr url \<Rightarrow>
          (let unable = Inl (Response (''Unable to parse commit url '' @ commitUrl) 500) in
           if hostname url = ''github.com'' then
             (let pathParts = filter (\<lambda>s. s \<noteq> []) (split_str CHR ''/'' (pathname url)) in
              if length pathParts \<ge> 3 \<and> pathParts ! 2 = ''commit''
              then Inr \<lparr>owner = pathParts ! 0, repo = pathParts ! 1\<rparr>
              else unable)
           else unable))"

section \<open>The platform and the remote API\<close>

text \<open>
  What \<open>JSON.parse(event.body)\<close> gives, as far as \<open>verifyAndParse\<close> tells the results
  apart: \<open>null\<close>, a value with no \<open>id\<close> (or a null one), or a deploy with its \<open>id\<close>.
\<close>

datatype parsed = ParsedNull | ParsedWithoutId | Parsed NetlifyDeploy

text \<open>The response of \<open>fetch\<close>: \<open>ok\<close>, \<open>status\<close> and what \<open>json()\<close> gives.\<close>

record FetchResponse =
  fr_ok :: bool
  fr_status :: nat
  fr_json :: "thrown + NetlifyDeploy"

text \<open>The parameters of the four REST calls, as \<open>innerHandler\<close> passes them.\<close>

record createCommitStatus_params =
  ccs_owner :: string
  ccs_repo :: string
  ccs_sha :: string
  ccs_state :: js_value
  ccs_target_url :: string
  ccs_description :: string
  ccs_context :: string

record listDeployments_params =
  ld_owner :: string
  ld_repo :: string
  ld_task :: string
  ld_environment :: string
  ld_per_page :: nat

record createDeployment_params =
  cd_owner :: string
  cd_repo :: string
  cd_ref :: string
  cd_environment :: string
  cd_task :: string
  cd_description :: string
  cd_auto_merge :: bool
  cd_required_contexts :: "string list"

record createDeploymentStatus_params =
  cds_owner :: string
  cds_repo :: string
  cds_deployment_id :: nat
  cds_state :: js_value
  cds_log_url :: string
  cds_environment_url :: "string option"
  cds_description :: string

text \<open>
  A deployment as the remote API returns it (the two fields the code reads), and the
  response of \<open>createDeployment\<close>: its status and its data, \<open>None\<close> when the data has no
  \<open>id\<close>.
\<close>

record Deployment =
  dp_id :: nat
  dp_updated_at :: string

record CreateDeploymentResponse =
  cdr_status :: nat
  cdr_data :: "Deployment option"

text \<open>
  The response of the GraphQL query \<open>GetSpecificCommitStatus\<close>: \<open>repository\<close>, its
  \<open>object\<close>, its \<open>status\<close> and its \<open>context\<close>, each nullable.
\<close>

type_synonym GetSpecificCommitStatusQueryResponse =
  "CommitStatusContext option option option option"

text \<open>
  An authorized client, over a remote state \<open>'g\<close>. A call that fails throws; a query
  leaves the remote state as it is.
\<close>

record 'g Octokit =
  graphql :: "'g \<Rightarrow> string \<Rightarrow> string \<Rightarrow> string \<Rightarrow> string \<Rightarrow>
              thrown + GetSpecificCommitStatusQueryResponse"
  createCommitStatus :: "'g \<Rightarrow> createCommitStatus_params \<Rightarrow> thrown + 'g"
  listDeployments :: "'g \<Rightarrow> listDeployments_params \<Rightarrow> thrown + Deployment list"
  createDeployment :: "'g \<Rightarrow> createDeployment_params \<Rightarrow> thrown + CreateDeploymentResponse \<times> 'g"
  createDeploymentStatus :: "'g \<Rightarrow> createDeploymentStatus_params \<Rightarrow> thrown + 'g"

text \<open>
  What the functions take from their platform: the environment variables, the libraries
  (\<open>jwt.verify\<close> gives the \<open>sha256\<close> claim of the decoded token or throws; \<open>Date_parse s\<close>
  is \<open>new Date(s).getTime()\<close>, with \<open>None\<close> for \<open>NaN\<close>), and the construction of a client.
\<close>

record 'g Platform =
  env_JWT :: "string option"
  env_GITHUB_TOKEN :: "string option"
  env_GITHUB_APP_ID :: "string option"
  env_GITHUB_APP_PRIVATE_KEY :: "string option"
  jwt_verify :: "string \<Rightarrow> string \<Rightarrow> thrown + string option"
  sha256_hex :: "string \<Rightarrow> string"
  JSON_parse :: "string \<Rightarrow> thrown + parsed"
  JSON_stringify :: "NetlifyDeploy \<Rightarrow> string"
  fetch :: "string \<Rightarrow> thrown + FetchResponse"
  Date_parse :: "string \<Rightarrow> int option"
  new_URL :: "string \<Rightarrow> thrown + URL"
  new_Octokit :: "string \<Rightarrow> 'g Octokit"
  installation_Octokit :: "string \<Rightarrow> string \<Rightarrow> RepoInfo \<Rightarrow> thrown + 'g Octokit"

text \<open>
  The effects of one invocation: the remote state, the writes requested of the remote API
  (in order, also those that threw), and the console.
\<close>

datatype api_call =
    CreateCommitStatus createCommitStatus_params
  | CreateDeployment createDeployment_params
  | CreateDeploymentStatus createDeploymentStatus_params

datatype log_entry = Debug string | ErrorLog string

record 'g world =
  remote :: 'g
  calls :: "api_call list"
  console :: "log_entry list"

definition console_debug :: "string \<Rightarrow> 'g world \<Rightarrow> 'g world" where
  "console_debug m w = w\<lparr>console := console w @ [Debug m]\<rparr>"

definition console_error :: "string \<Rightarrow> 'g world \<Rightarrow> 'g world" where
  "console_error m w = w\<lparr>console := console w @ [ErrorLog m]\<rparr>"

definition request :: "api_call \<Rightarrow> 'g world \<Rightarrow> 'g world" where
  "request c w = w\<lparr>calls := calls w @ [c]\<rparr>"

definition dquote :: string where
  "dquote = [CHR 0x22]"

definition tag :: "string \<Rightarrow> string \<Rightarrow> string" where
  "tag reqId m = ''['' @ reqId @ ''] '' @ m"

section \<open>Parsing and fetching the notification\<close>

text \<open>\<open>validateSignature\<close>, \<open>verifyAndParse\<close> and \<open>fetchNetlifyDeploy\<close> of \<open>netlify.mts\<close>.\<close>

definition validateSignature :: "'g Platform \<Rightarrow> string \<Rightarrow> string \<Rightarrow> string \<Rightarrow> thrown + bool" where
  "validateSignature P token secret buffer =
     (case jwt_verify P token secret of
        Inl e \<Rightarrow> Inl e
      | Inr decoded_sha256 \<Rightarrow> Inr (decoded_sha256 = Some (sha256_hex P buffer)))"

definition id_only :: "string \<Rightarrow> NetlifyDeploy" where
  "id_only i =
     \<lparr>nd_id = i, nd_state = None, nd_name = None, nd_branch = None, nd_commit_ref = None,
      nd_commit_url = None, nd_context = None, nd_error_message = None,
      nd_updated_at = None, nd_url = None, nd_deploy_ssl_url = None\<rparr>"

definition check_signature :: "'g Platform \<Rightarrow> HandlerEvent \<Rightarrow> string \<Rightarrow> thrown + unit" where
  "check_signature P event body =
     (case env_JWT P of
        None \<Rightarrow> Inr ()
      | Some secret \<Rightarrow>
          (case ev_signature event of
             None \<Rightarrow> Inl (Response ''Request is missing the x-webhook-signature header.'' 401)
           | Some signature \<Rightarrow>
               (case validateSignature P signature secret body of
                  Inl e \<Rightarrow> Inl e
                | Inr valid \<Rightarrow>
                    if \<not> valid then Inl (Response ''Invalid signature.'' 401) else Inr ())))"

definition verifyAndParse :: "'g Platform \<Rightarrow> HandlerEvent \<Rightarrow> thrown + NetlifyDeploy" where
  "verifyAndParse P event =
     (case ev_body event of
        None \<Rightarrow> Inl (Response ''Request body is empty.'' 400)
      | Some body \<Rightarrow>
          (case check_signature P event body of
             Inl e \<Rightarrow> Inl e
           | Inr _ \<Rightarrow>
               (case JSON_parse P body of
                  Inl e \<Rightarrow> Inl e
                | Inr (Parsed deploy) \<Rightarrow>
                    Inr (if env_JWT P = None then id_only (nd_id deploy) else deploy)
                | Inr _ \<Rightarrow> Inl (Response ''Failed to get deploy ID from request body.'' 400))))"

definition fetchNetlifyDeploy :: "'g Platform \<Rightarrow> NetlifyDeploy \<Rightarrow> thrown + NetlifyDeploy" where
  "fetchNetlifyDeploy P data =
     (if nd_state data \<noteq> None then Inr data
      else
        (case fetch P (''https://api.netlify.com/api/v1/deploys/'' @ nd_id data) of
           Inl e \<Rightarrow> Inl e
         | Inr deploy \<Rightarrow>
             if \<not> fr_ok deploy
             then Inl (Response (''Failed to fetch deploy details from Netlify API: ''
                                 @ decimal (fr_status deploy)) 502)
             else fr_json deploy))"

section \<open>The client and the existing commit status\<close>

text \<open>\<open>getOctokit\<close> and \<open>getCommitStatusByContext\<close> of \<open>github.mts\<close>.\<close>

definition getOctokit :: "'g Platform \<Rightarrow> RepoInfo option \<Rightarrow> thrown + 'g Octokit" where
  "getOctokit P repoInfo =
     (case env_GITHUB_TOKEN P of
        Some token \<Rightarrow> Inr (new_Octokit P token)
      | None \<Rightarrow>
          (case (env_GITHUB_APP_ID P, env_GITHUB_APP_PRIVATE_KEY P) of
             (Some appId, Some privateKey) \<Rightarrow>
               (case repoInfo of
                  None \<Rightarrow> Inl (Response
                    ''Repository info (owner, repo) is required for GitHub App authentication.'' 400)
                | Some r \<Rightarrow> installation_Octokit P appId privateKey r)
           | _ \<Rightarrow> Inl (Response
               (''Server configuration error: Missing GitHub environment variable ''
                @ ''(GITHUB_TOKEN or GITHUB_APP_ID & GITHUB_APP_PRIVATE_KEY).'') 500)))"

definition getCommitStatusByContext ::
  "'g Octokit \<Rightarrow> 'g \<Rightarrow> RepoInfo \<Rightarrow> string \<Rightarrow> string \<Rightarrow> thrown + CommitStatusContext option" where
  "getCommitStatusByContext octokit g repoInfo commitSha contextName =
     (case graphql octokit g (owner repoInfo) (repo repoInfo) commitSha contextName of
        Inl e \<Rightarrow> Inl e
      | Inr response \<Rightarrow>
          Inr (case response of Some (Some (Some c)) \<Rightarrow> c | _ \<Rightarrow> None))"

section \<open>The orchestrator\<close>

text \<open>
  \<open>innerHandler\<close> of \<open>deployment.mts\<close>. After the check of lines 15 to 23 the compiler
  knows five fields of the deploy to be strings; \<open>narrow\<close> is that check, and
  \<open>NarrowedDeploy\<close> the deploy after it.
\<close>

record NarrowedDeploy =
  n_id :: string
  n_state :: string
  n_name :: string
  n_branch :: string
  n_commit_ref :: string
  n_commit_url :: string
  n_context :: "string option"
  n_error_message :: "string option"
  n_updated_at :: "string option"
  n_url :: "string option"
  n_deploy_ssl_url :: "string option"

definition narrow :: "NetlifyDeploy \<Rightarrow> NarrowedDeploy option" where
  "narrow deploy =
     (case (nd_state deploy, nd_commit_ref deploy, nd_commit_url deploy, nd_branch deploy,
            nd_name deploy) of
        (Some st, Some cref, Some curl, Some br, Some nm) \<Rightarrow>
          Some \<lparr>n_id = nd_id deploy, n_state = st, n_name = nm, n_branch = br,
                n_commit_ref = cref, n_commit_url = curl, n_context = nd_context deploy,
                n_error_message = nd_error_message deploy,
                n_updated_at = nd_updated_at deploy, n_url = nd_url deploy,
                n_deploy_ssl_url = nd_deploy_ssl_url deploy\<rparr>
      | _ \<Rightarrow> None)"

text \<open>
  The constants \<open>context\<close> and \<open>environment\<close> (lines 34 and 35), and the URL of the
  deploy's log (lines 65 and 147).
\<close>

definition status_context :: "NarrowedDeploy \<Rightarrow> string" where
  "status_context d = ''Netlify ('' @ n_branch d @ '' - '' @ n_name d @ '')''"

definition environment :: "NarrowedDeploy \<Rightarrow> string" where
  "environment d = n_branch d @ '' - '' @ n_name d"

definition deploy_log_url :: "NarrowedDeploy \<Rightarrow> string" where
  "deploy_log_url d = ''https://app.netlify.com/sites/'' @ n_name d @ ''/deploys/'' @ n_id d"

text \<open>
  The two sides of the comparisons of lines 49 to 50 and 131 to 132.
  \<open>new Date(s).getTime()\<close> is \<open>NaN\<close> for a string that is no date, and \<open>NaN <= x\<close> is
  false; \<open>new Date(deploy.updated_at ?? 0).getTime()\<close> is 0 for a null timestamp.
\<close>

definition js_le :: "int option \<Rightarrow> int option \<Rightarrow> bool" where
  "js_le a b = (case (a, b) of (Some x, Some y) \<Rightarrow> x \<le> y | _ \<Rightarrow> False)"

definition getTime :: "'g Platform \<Rightarrow> string \<Rightarrow> int option" where
  "getTime P s = Date_parse P s"

definition notificationTime :: "'g Platform \<Rightarrow> NarrowedDeploy \<Rightarrow> int option" where
  "notificationTime P d = (case n_updated_at d of None \<Rightarrow> Some 0 | Some s \<Rightarrow> getTime P s)"

text \<open>Lines 39 to 76: the commit status.\<close>

definition commitStatusDue :: "'g Platform \<Rightarrow> CommitStatusContext option \<Rightarrow> NarrowedDeploy \<Rightarrow> bool" where
  "commitStatusDue P existingStatus d =
     (case existingStatus of
        None \<Rightarrow> True
      | Some s \<Rightarrow> js_le (getTime P (cs_createdAt s)) (notificationTime P d))"

definition commitStatusParams :: "RepoInfo \<Rightarrow> NarrowedDeploy \<Rightarrow> createCommitStatus_params" where
  "commitStatusParams repoInfo d =
     \<lparr>ccs_owner = owner repoInfo, ccs_repo = repo repoInfo, ccs_sha = n_commit_ref d,
      ccs_state = commitStatusState (n_state d), ccs_target_url = deploy_log_url d,
      ccs_description = getCommitStatusDescription (n_state d) (n_error_message d),
      ccs_context = status_context d\<rparr>"

definition innerHandler_commit_status ::
  "'g Platform \<Rightarrow> 'g Octokit \<Rightarrow> string \<Rightarrow> RepoInfo \<Rightarrow> NarrowedDeploy \<Rightarrow> 'g world \<Rightarrow>
   (thrown + unit) \<times> 'g world" where
  "innerHandler_commit_status P octokit reqId repoInfo d w =
     (case getCommitStatusByContext octokit (remote w) repoInfo (n_commit_ref d)
             (status_context d) of
        Inl e \<Rightarrow> (Inl e, w)
      | Inr existingStatus \<Rightarrow>
          if commitStatusDue P existingStatus d then
            (let w1 = request (CreateCommitStatus (commitStatusParams repoInfo d)) w in
             case createCommitStatus octokit (remote w) (commitStatusParams repoInfo d) of
               Inl e \<Rightarrow> (Inl e, w1)
             | Inr g \<Rightarrow>
                 (Inr (), console_debug (tag reqId
                    (''Successfully created/updated commit status for context: '' @ dquote
                     @ status_context d @ dquote)) (w1\<lparr>remote := g\<rparr>)))
          else
            (Inr (), console_debug (tag reqId
               (''Skipping commit status update: a more recent status already exists ''
                @ ''for context '' @ dquote @ status_context d @ dquote @ ''.'')) w))"

text \<open>
  Lines 80 to 124: the deployment. The result is the pair of \<open>existingDeployment\<close> and
  \<open>deployment\<close>.
\<close>

definition listDeploymentsParams :: "RepoInfo \<Rightarrow> NarrowedDeploy \<Rightarrow> listDeployments_params" where
  "listDeploymentsParams repoInfo d =
     \<lparr>ld_owner = owner repoInfo, ld_repo = repo repoInfo,
      ld_task = ''deploy:netlify-'' @ n_id d, ld_environment = environment d,
      ld_per_page = 1\<rparr>"

definition deploymentParams :: "RepoInfo \<Rightarrow> NarrowedDeploy \<Rightarrow> createDeployment_params" where
  "deploymentParams repoInfo d =
     \<lparr>cd_owner = owner repoInfo, cd_repo = repo repoInfo, cd_ref = n_commit_ref d,
      cd_environment = n_branch d @ '' - '' @ n_name d, cd_task = ''deploy:netlify-'' @ n_id d,
      cd_description = ''Netlify deployment triggered by commit.'', cd_auto_merge = False,
      cd_required_contexts = []\<rparr>"

definition innerHandler_deployment ::
  "'g Octokit \<Rightarrow> string \<Rightarrow> RepoInfo \<Rightarrow> NarrowedDeploy \<Rightarrow> 'g world \<Rightarrow>
   (thrown + Deployment option \<times> Deployment) \<times> 'g world" where
  "innerHandler_deployment octokit reqId repoInfo d w =
     (case listDeployments octokit (remote w) (listDeploymentsParams repoInfo d) of
        Inl e \<Rightarrow> (Inl e, w)
      | Inr [] \<Rightarrow>
          (let w1 = console_debug (tag reqId
                      ''No existing deployment found for Netlify. Creating a new one.'') w;
               w2 = request (CreateDeployment (deploymentParams repoInfo d)) w1 in
           case createDeployment octokit (remote w) (deploymentParams repoInfo d) of
             Inl e \<Rightarrow> (Inl e, w2)
           | Inr (newDeploymentResponse, g) \<Rightarrow>
               (case cdr_data newDeploymentResponse of
                  Some deployment \<Rightarrow>
                    if cdr_status newDeploymentResponse \<noteq> 201
                    then (Inl (Response (''Failed to create deployment. Status: ''
                                @ decimal (cdr_status newDeploymentResponse)) 502),
                          w2\<lparr>remote := g\<rparr>)
                    else (Inr (None, deployment), w2\<lparr>remote := g\<rparr>)
                | None \<Rightarrow>
                    (Inl (Response (''Failed to create deployment. Status: ''
                           @ decimal (cdr_status newDeploymentResponse)) 502),
                     w2\<lparr>remote := g\<rparr>)))
      | Inr (existingDeployment # _) \<Rightarrow>
          (Inr (Some existingDeployment, existingDeployment),
           console_debug (tag reqId (''Found existing deployment with ID: ''
             @ decimal (dp_id existingDeployment))) w))"

text \<open>Lines 129 to 163: the deployment status.\<close>

definition deploymentStatusDue ::
  "'g Platform \<Rightarrow> Deployment option \<Rightarrow> Deployment \<Rightarrow> NarrowedDeploy \<Rightarrow> bool" where
  "deploymentStatusDue P existingDeployment deployment d =
     (case existingDeployment of
        None \<Rightarrow> True
      | Some _ \<Rightarrow> js_le (getTime P (dp_updated_at deployment)) (notificationTime P d))"

text \<open>\<open>url.replace(/^http:\/\//g, "https://")\<close>.\<close>

definition replace_http :: "string \<Rightarrow> string" where
  "replace_http u = (if take 7 u = ''http://'' then ''https://'' @ drop 7 u else u)"

definition environment_url :: "NarrowedDeploy \<Rightarrow> string option" where
  "environment_url d =
     (case (if n_context d = Some ''production'' then map_option replace_http (n_url d)
            else None) of
        Some u \<Rightarrow> Some u
      | None \<Rightarrow> n_deploy_ssl_url d)"

definition deploymentStatusParams ::
  "RepoInfo \<Rightarrow> Deployment \<Rightarrow> NarrowedDeploy \<Rightarrow> createDeploymentStatus_params" where
  "deploymentStatusParams repoInfo deployment d =
     \<lparr>cds_owner = owner repoInfo, cds_repo = repo repoInfo,
      cds_deployment_id = dp_id deployment,
      cds_state = deploymentStatusState (n_state d), cds_log_url = deploy_log_url d,
      cds_environment_url = environment_url d,
      cds_description = ''Netlify deploy state: '' @ n_state d\<rparr>"

definition innerHandler_deployment_status ::
  "'g Platform \<Rightarrow> 'g Octokit \<Rightarrow> string \<Rightarrow> RepoInfo \<Rightarrow> NarrowedDeploy \<Rightarrow>
   Deployment option \<Rightarrow> Deployment \<Rightarrow> 'g world \<Rightarrow> (thrown + unit) \<times> 'g world" where
  "innerHandler_deployment_status P octokit reqId repoInfo d existingDeployment deployment w =
     (if deploymentStatusDue P existingDeployment deployment d then
        (let w1 = request (CreateDeploymentStatus (deploymentStatusParams repoInfo deployment d)) w in
         case createDeploymentStatus octokit (remote w)
                (deploymentStatusParams repoInfo deployment d) of
           Inl e \<Rightarrow> (Inl e, w1)
         | Inr g \<Rightarrow>
             (Inr (), console_debug (tag reqId
                (''Successfully created/updated deployment status for deployment ID: ''
                 @ decimal (dp_id deployment))) (w1\<lparr>remote := g\<rparr>)))
      else
        (Inr (), console_debug (tag reqId
           (''Skipping deployment status update: a more recent status already exists ''
            @ ''for deployment ID: '' @ decimal (dp_id deployment))) w))"

text \<open>Lines 39 to 168, with the client and the repository at hand.\<close>

definition innerHandler_reconcile ::
  "'g Platform \<Rightarrow> 'g Octokit \<Rightarrow> string \<Rightarrow> RepoInfo \<Rightarrow> NarrowedDeploy \<Rightarrow> 'g world \<Rightarrow>
   (thrown + unit) \<times> 'g world" where
  "innerHandler_reconcile P octokit reqId repoInfo d w =
     (case innerHandler_commit_status P octokit reqId repoInfo d w of
        (Inl e, w1) \<Rightarrow> (Inl e, w1)
      | (Inr _, w1) \<Rightarrow>
          (case innerHandler_deployment octokit reqId repoInfo d w1 of
             (Inl e, w2) \<Rightarrow> (Inl e, w2)
           | (Inr (existingDeployment, deployment), w2) \<Rightarrow>
               (case innerHandler_deployment_status P octokit reqId repoInfo d
                       existingDeployment deployment w2 of
                  (Inl e, w3) \<Rightarrow> (Inl e, w3)
                | (Inr _, w3) \<Rightarrow>
                    (Inl (Response ''GitHub deployment and commit status updated successfully.''
                            200), w3))))"

text \<open>Lines 15 to 168: what \<open>innerHandler\<close> does with the deploy it has fetched.\<close>

definition innerHandler_deploy ::
  "'g Platform \<Rightarrow> string \<Rightarrow> NetlifyDeploy \<Rightarrow> 'g world \<Rightarrow> (thrown + unit) \<times> 'g world" where
  "innerHandler_deploy P reqId deploy w =
     (case narrow deploy of
        None \<Rightarrow> (Inl (Response ''Skipped: No commit reference.'' 200), w)
      | Some d \<Rightarrow>
          if n_context d = Some ''deploy-preview''
          then (Inl (Response ''Skipped: Deploy preview.'' 200), w)
          else
            (case parseRepoInfoFromCommitUrl (new_URL P) (n_commit_url d) of
               Inl e \<Rightarrow> (Inl e, w)
             | Inr repoInfo \<Rightarrow>
                 (case getOctokit P (Some repoInfo) of
                    Inl e \<Rightarrow> (Inl e, w)
                  | Inr octokit \<Rightarrow> innerHandler_reconcile P octokit reqId repoInfo d w)))"

definition innerHandler ::
  "'g Platform \<Rightarrow> string \<Rightarrow> HandlerEvent \<Rightarrow> 'g world \<Rightarrow> (thrown + unit) \<times> 'g world" where
  "innerHandler P reqId event w =
     (case verifyAndParse P event of
        Inl e \<Rightarrow> (Inl e, w)
      | Inr data \<Rightarrow>
          (case fetchNetlifyDeploy P data of
             Inl e \<Rightarrow> (Inl e, w)
           | Inr deploy \<Rightarrow>
               innerHandler_deploy P reqId deploy
                 (console_debug (tag reqId (''Processing deploy '' @ JSON_stringify P deploy)) w)))"

section \<open>The error boundary\<close>

text \<open>
  \<open>handler\<close> of \<open>deployment.mts\<close>; \<open>reqId\<close> is the \<open>randomUUID()\<close> of the invocation.
  A response has a status code and, where the code sets it, a body. In the branch for an
  \<open>Error\<close>, line 190 logs \<open>JSON.stringify(err)\<close> before line 191 returns; when that call
  throws, nothing catches it, nothing is logged and \<open>handler\<close> returns no response: its
  promise is rejected. That outcome is \<open>None\<close>.
\<close>

record HandlerResponse =
  statusCode :: nat
  body :: "string option"

definition handler ::
  "'g Platform \<Rightarrow> string \<Rightarrow> HandlerEvent \<Rightarrow> 'g world \<Rightarrow> HandlerResponse option \<times> 'g world" where
  "handler P reqId event w =
     (case innerHandler P reqId event w of
        (Inl (Response message code), w') \<Rightarrow>
          (Some \<lparr>statusCode = code, body = Some message\<rparr>,
           if code = 200 then console_debug (tag reqId message) w'
           else console_error (tag reqId message) w')
      | (Inl (Error message json), w') \<Rightarrow>
          (case json of
             None \<Rightarrow> (None, w')
           | Some text \<Rightarrow>
               (Some \<lparr>statusCode = 500, body = Some message\<rparr>,
                console_error (tag reqId text) w'))
      | (Inl Other, w') \<Rightarrow> (Some \<lparr>statusCode = 200, body = None\<rparr>, w')
      | (Inr _, w') \<Rightarrow> (Some \<lparr>statusCode = 200, body = None\<rparr>, w'))"

section \<open>A model of the remote API\<close>

text \<open>
  Modelled from the spec: the remote API, which is GitHub's and no code of the repository.
  The spec (sections 3 and 6) gives it five operations: query the single status of a
  commit and a context, create a status, list the deployments of a task and an
  environment, create a deployment, create a deployment status. Statuses are appended,
  never changed; the remote stamps what it creates with its own clock, \<open>gh_now\<close>, and a
  new deployment status moves the \<open>updated_at\<close> of its deployment to that clock. A state
  outside the enumeration of the API is refused, as is a deployment status for a
  deployment that does not exist.
\<close>

record gh_status =
  gs_owner :: string
  gs_repo :: string
  gs_sha :: string
  gs_context :: string
  gs_state :: string
  gs_description :: string
  gs_target_url :: string
  gs_created_at :: string

record gh_deployment =
  gd_id :: nat
  gd_owner :: string
  gd_repo :: string
  gd_ref :: string
  gd_task :: string
  gd_environment :: string
  gd_updated_at :: string

record gh_deployment_status =
  gds_deployment_id :: nat
  gds_state :: string
  gds_log_url :: string
  gds_environment_url :: "string option"
  gds_description :: string
  gds_created_at :: string

text \<open>The lists hold the newest record first.\<close>

record github =
  gh_statuses :: "gh_status list"
  gh_deployments :: "gh_deployment list"
  gh_deployment_statuses :: "gh_deployment_status list"
  gh_now :: string
  gh_next_id :: nat

definition status_matches :: "string \<Rightarrow> string \<Rightarrow> string \<Rightarrow> string \<Rightarrow> gh_status \<Rightarrow> bool" where
  "status_matches ow rp sha ctx s =
     (gs_owner s = ow \<and> gs_repo s = rp \<and> gs_sha s = sha \<and> gs_context s = ctx)"

definition as_context :: "gh_status \<Rightarrow> CommitStatusContext" where
  "as_context s =
     \<lparr>cs_context = gs_context s, cs_state = gs_state s,
      cs_description = Some (gs_description s), cs_targetUrl = Some (gs_target_url s),
      cs_createdAt = gs_created_at s, cs_creator = None\<rparr>"

definition github_graphql ::
  "github \<Rightarrow> string \<Rightarrow> string \<Rightarrow> string \<Rightarrow> string \<Rightarrow>
   thrown + GetSpecificCommitStatusQueryResponse" where
  "github_graphql g ow rp sha ctx =
     Inr (Some (Some (Some
       (map_option as_context (find (status_matches ow rp sha ctx) (gh_statuses g))))))"

definition invalid_request :: thrown where
  "invalid_request = Error ''Validation Failed'' (Some ''{}'')"

definition github_createCommitStatus :: "github \<Rightarrow> createCommitStatus_params \<Rightarrow> thrown + github" where
  "github_createCommitStatus g p =
     (case ccs_state p of
        JString st \<Rightarrow>
          if st \<in> set [''error'', ''failure'', ''pending'', ''success'']
          then Inr (g\<lparr>gh_statuses :=
                 \<lparr>gs_owner = ccs_owner p, gs_repo = ccs_repo p, gs_sha = ccs_sha p,
                  gs_context = ccs_context p, gs_state = st,
                  gs_description = ccs_description p, gs_target_url = ccs_target_url p,
                  gs_created_at = gh_now g\<rparr> # gh_statuses g\<rparr>)
          else Inl invalid_request
      | JInherited _ \<Rightarrow> Inl invalid_request)"

definition deployment_matches :: "string \<Rightarrow> string \<Rightarrow> string \<Rightarrow> string \<Rightarrow> gh_deployment \<Rightarrow> bool" where
  "deployment_matches ow rp tk env x =
     (gd_owner x = ow \<and> gd_repo x = rp \<and> gd_task x = tk \<and> gd_environment x = env)"

definition as_deployment :: "gh_deployment \<Rightarrow> Deployment" where
  "as_deployment x = \<lparr>dp_id = gd_id x, dp_updated_at = gd_updated_at x\<rparr>"

definition github_listDeployments :: "github \<Rightarrow> listDeployments_params \<Rightarrow> thrown + Deployment list" where
  "github_listDeployments g p =
     Inr (take (ld_per_page p) (map as_deployment
       (filter (deployment_matches (ld_owner p) (ld_repo p) (ld_task p) (ld_environment p))
          (gh_deployments g))))"

definition github_createDeployment ::
  "github \<Rightarrow> createDeployment_params \<Rightarrow> thrown + CreateDeploymentResponse \<times> github" where
  "github_createDeployment g p =
     Inr (\<lparr>cdr_status = 201,
           cdr_data = Some \<lparr>dp_id = gh_next_id g, dp_updated_at = gh_now g\<rparr>\<rparr>,
          g\<lparr>gh_deployments :=
               \<lparr>gd_id = gh_next_id g, gd_owner = cd_owner p, gd_repo = cd_repo p,
                gd_ref = cd_ref p, gd_task = cd_task p, gd_environment = cd_environment p,
                gd_updated_at = gh_now g\<rparr> # gh_deployments g,
            gh_next_id := Suc (gh_next_id g)\<rparr>)"

definition touch :: "nat \<Rightarrow> string \<Rightarrow> gh_deployment \<Rightarrow> gh_deployment" where
  "touch i now x = (if gd_id x = i then x\<lparr>gd_updated_at := now\<rparr> else x)"

definition github_createDeploymentStatus ::
  "github \<Rightarrow> createDeploymentStatus_params \<Rightarrow> thrown + github" where
  "github_createDeploymentStatus g p =
     (case cds_state p of
        JString st \<Rightarrow>
          if st \<in> set [''error'', ''failure'', ''inactive'', ''in_progress'', ''queued'',
                         ''pending'', ''success'']
             \<and> (\<exists>x \<in> set (gh_deployments g).
                   gd_id x = cds_deployment_id p \<and> gd_owner x = cds_owner p
                   \<and> gd_repo x = cds_repo p)
          then Inr (g\<lparr>gh_deployment_statuses :=
                 \<lparr>gds_deployment_id = cds_deployment_id p, gds_state = st,
                  gds_log_url = cds_log_url p, gds_environment_url = cds_environment_url p,
                  gds_description = cds_description p, gds_created_at = gh_now g\<rparr>
                 # gh_deployment_statuses g,
                 gh_deployments := map (touch (cds_deployment_id p) (gh_now g)) (gh_deployments g)\<rparr>)
          else Inl invalid_request
      | JInherited _ \<Rightarrow> Inl invalid_request)"

definition github_octokit :: "github Octokit" where
  "github_octokit =
     \<lparr>graphql = github_graphql, createCommitStatus = github_createCommitStatus,
      listDeployments = github_listDeployments, createDeployment = github_createDeployment,
      createDeploymentStatus = github_createDeploymentStatus\<rparr>"

text \<open>The deployments of a repository, a task and an environment.\<close>

definition deployments_of :: "github \<Rightarrow> RepoInfo \<Rightarrow> string \<Rightarrow> string \<Rightarrow> gh_deployment list" where
  "deployments_of g repoInfo tk env =
     filter (deployment_matches (owner repoInfo) (repo repoInfo) tk env) (gh_deployments g)"

text \<open>
  The status the remote holds after \<open>createCommitStatus\<close> for a deploy, with the state \<open>st\<close>, created
  at \<open>now\<close>.
\<close>

definition new_status :: "RepoInfo \<Rightarrow> NarrowedDeploy \<Rightarrow> string \<Rightarrow> string \<Rightarrow> gh_status" where
  "new_status repoInfo d st now =
     \<lparr>gs_owner = owner repoInfo, gs_repo = repo repoInfo, gs_sha = n_commit_ref d,
      gs_context = status_context d, gs_state = st,
      gs_description = getCommitStatusDescription (n_state d) (n_error_message d),
      gs_target_url = deploy_log_url d, gs_created_at = now\<rparr>"

section \<open>A platform and a notification for the examples\<close>

text \<open>
  The examples run on a small platform: a URL constructor that reads \<open>https://host/path\<close>
  and throws on anything else, a date parser that knows four instants, a personal access
  token for the client, and a JSON parser and a \<open>fetch\<close> that the examples replace. The
  notification is the scenario of the spec's section 8.
\<close>

definition example_new_URL :: "string \<Rightarrow> thrown + URL" where
  "example_new_URL s =
     (if take 8 s = ''https://''
      then Inr \<lparr>hostname = takeWhile (\<lambda>c. c \<noteq> CHR ''/'') (drop 8 s),
                pathname = dropWhile (\<lambda>c. c \<noteq> CHR ''/'') (drop 8 s)\<rparr>
      else Inl (Error ''Invalid URL'' (Some ''{}'')))"

definition example_Date_parse :: "string \<Rightarrow> int option" where
  "example_Date_parse s =
     (if s = ''1970-01-01T00:00:00.000Z'' then Some 0
      else if s = ''1970-01-01T00:00:01.000Z'' then Some 1000
      else if s = ''1970-01-01T00:00:02.000Z'' then Some 2000
      else if s = ''1970-01-01T00:00:03.000Z'' then Some 3000
      else None)"

definition example_platform :: "github Platform" where
  "example_platform =
     \<lparr>env_JWT = None, env_GITHUB_TOKEN = Some ''token'', env_GITHUB_APP_ID = None,
      env_GITHUB_APP_PRIVATE_KEY = None,
      jwt_verify = (\<lambda>token secret. Inl (Error ''jwt malformed'' (Some ''{}''))),
      sha256_hex = (\<lambda>buffer. buffer),
      JSON_parse = (\<lambda>text. Inl (Error ''Unexpected end of JSON input'' (Some ''{}''))),
      JSON_stringify = nd_id,
      fetch = (\<lambda>url. Inl (Error ''fetch failed'' (Some ''{}''))),
      Date_parse = example_Date_parse,
      new_URL = example_new_URL,
      new_Octokit = (\<lambda>token. github_octokit),
      installation_Octokit = (\<lambda>appId privateKey repoInfo. Inr github_octokit)\<rparr>"

definition scenario :: NetlifyDeploy where
  "scenario =
     \<lparr>nd_id = ''d1'', nd_state = Some ''building'', nd_name = Some ''site'',
      nd_branch = Some ''main'', nd_commit_ref = Some ''abc123'',
      nd_commit_url = Some ''https://github.com/o/r/commit/abc123'',
      nd_context = Some ''production'', nd_error_message = None,
      nd_updated_at = Some ''1970-01-01T00:00:02.000Z'', nd_url = None,
      nd_deploy_ssl_url = None\<rparr>"

definition narrowed_scenario :: NarrowedDeploy where
  "narrowed_scenario =
     \<lparr>n_id = ''d1'', n_state = ''building'', n_name = ''site'', n_branch = ''main'',
      n_commit_ref = ''abc123'', n_commit_url = ''https://github.com/o/r/commit/abc123'',
      n_context = Some ''production'', n_error_message = None,
      n_updated_at = Some ''1970-01-01T00:00:02.000Z'', n_url = None,
      n_deploy_ssl_url = None\<rparr>"

definition empty_github :: github where
  "empty_github =
     \<lparr>gh_statuses = [], gh_deployments = [], gh_deployment_statuses = [],
      gh_now = ''1970-01-01T00:00:03.000Z'', gh_next_id = 1\<rparr>"

definition empty_world :: "github world" where
  "empty_world = \<lparr>remote = empty_github, calls = [], console = []\<rparr>"

text \<open>
  A platform with no webhook secret, whose JSON parser reads the body as the scenario in
  the state the body names, and whose \<open>fetch\<close> answers 404.
\<close>

definition unsigned_platform :: "github Platform" where
  "unsigned_platform =
     example_platform
       \<lparr>JSON_parse := (\<lambda>text. Inr (Parsed (scenario\<lparr>nd_state := Some text\<rparr>))),
        fetch := (\<lambda>url. Inr \<lparr>fr_ok = False, fr_status = 404, fr_json = Inr scenario\<rparr>)\<rparr>"

text \<open>
  The repository of the scenario; an older notification for the same commit and site; and
  the world after the scenario has been processed in the empty world.
\<close>

definition example_repo :: RepoInfo where
  "example_repo = \<lparr>owner = ''o'', repo = ''r''\<rparr>"

definition older_notification :: NarrowedDeploy where
  "older_notification =
     narrowed_scenario\<lparr>n_state := ''ready'', n_updated_at := Some ''1970-01-01T00:00:01.000Z''\<rparr>"

definition after_scenario :: "github world" where
  "after_scenario =
     snd (innerHandler_reconcile example_platform github_octokit ''req-2'' example_repo
            narrowed_scenario empty_world)"

text \<open>
  The deployment the scenario leaves on the remote, as \<open>listDeployments\<close> returns it, and
  a notification for the same deploy with no timestamp.
\<close>

definition recorded_deployment :: Deployment where
  "recorded_deployment = \<lparr>dp_id = 1, dp_updated_at = ''1970-01-01T00:00:03.000Z''\<rparr>"

definition untimed_notification :: NarrowedDeploy where
  "untimed_notification = narrowed_scenario\<lparr>n_state := ''ready'', n_updated_at := None\<rparr>"

text \<open>
  A world whose remote clock shows the epoch, and the world after the scenario has been
  processed there; the older notification and the one with no timestamp, as deploys.
\<close>

definition behind_world :: "github world" where
  "behind_world =
     \<lparr>remote = empty_github\<lparr>gh_now := ''1970-01-01T00:00:00.000Z''\<rparr>, calls = [], console = []\<rparr>"

definition after_scenario_behind :: "github world" where
  "after_scenario_behind =
     snd (innerHandler_reconcile example_platform github_octokit ''req-2'' example_repo
            narrowed_scenario behind_world)"

definition older_deploy :: NetlifyDeploy where
  "older_deploy =
     scenario\<lparr>nd_state := Some ''ready'', nd_updated_at := Some ''1970-01-01T00:00:01.000Z''\<rparr>"

definition untimed_deploy :: NetlifyDeploy where
  "untimed_deploy = scenario\<lparr>nd_state := Some ''ready'', nd_updated_at := None\<rparr>"

section \<open>The steps of the orchestrator, one at a time\<close>

lemma js_le_iff: "js_le a b \<longleftrightarrow> (\<exists>x y. a = Some x \<and> b = Some y \<and> x \<le> y)"
  by (auto simp: js_le_def split: option.splits)

lemma commitStatusDue_iff:
  "commitStatusDue P existing d \<longleftrightarrow>
     existing = None \<or>
     (\<exists>s c t. existing = Some s \<and> getTime P (cs_createdAt s) = Some c \<and>
        notificationTime P d = Some t \<and> c \<le> t)"
  by (auto simp: commitStatusDue_def js_le_iff split: option.splits)


lemma commit_status_calls:
  "getCommitStatusByContext octokit (remote w) repoInfo (n_commit_ref d) (status_context d)
     = Inr existing \<Longrightarrow>
   calls (snd (innerHandler_commit_status P octokit reqId repoInfo d w)) =
     calls w @ (if commitStatusDue P existing d
                then [CreateCommitStatus (commitStatusParams repoInfo d)] else [])"
  by (simp add: innerHandler_commit_status_def request_def console_debug_def Let_def
        split: sum.splits)

lemma commit_status_skip:
  "getCommitStatusByContext octokit (remote w) repoInfo (n_commit_ref d) (status_context d)
     = Inr existing \<Longrightarrow> \<not> commitStatusDue P existing d \<Longrightarrow>
   fst (innerHandler_commit_status P octokit reqId repoInfo d w) = Inr () \<and>
   remote (snd (innerHandler_commit_status P octokit reqId repoInfo d w)) = remote w"
  by (simp add: innerHandler_commit_status_def console_debug_def)

lemma deployment_status_calls:
  "calls (snd (innerHandler_deployment_status P octokit reqId repoInfo d existing deployment w)) =
     calls w @ (if deploymentStatusDue P existing deployment d
                then [CreateDeploymentStatus (deploymentStatusParams repoInfo deployment d)]
                else [])"
  by (simp add: innerHandler_deployment_status_def request_def console_debug_def Let_def
        split: sum.splits)


lemma deployment_found:
  "listDeployments octokit (remote w) (listDeploymentsParams repoInfo d) = Inr (e # es) \<Longrightarrow>
   fst (innerHandler_deployment octokit reqId repoInfo d w) = Inr (Some e, e) \<and>
   calls (snd (innerHandler_deployment octokit reqId repoInfo d w)) = calls w \<and>
   remote (snd (innerHandler_deployment octokit reqId repoInfo d w)) = remote w"
  by (simp add: innerHandler_deployment_def console_debug_def)

lemma deployment_missing:
  "listDeployments octokit (remote w) (listDeploymentsParams repoInfo d) = Inr [] \<Longrightarrow>
   calls (snd (innerHandler_deployment octokit reqId repoInfo d w)) =
     calls w @ [CreateDeployment (deploymentParams repoInfo d)]"
  by (simp add: innerHandler_deployment_def console_debug_def request_def Let_def
       split: sum.splits prod.splits option.splits)

lemma deployment_result:
  "innerHandler_deployment octokit reqId repoInfo d w = (Inr (existing, deployment), w') \<Longrightarrow>
   existing = None \<or> existing = Some deployment"
  by (auto simp add: innerHandler_deployment_def console_debug_def request_def Let_def
       split: sum.splits prod.splits option.splits list.splits if_splits)

text \<open>Every path through \<open>innerHandler\<close> ends in a \<open>throw\<close>.\<close>

lemma reconcile_throws:
  "\<exists>e. fst (innerHandler_reconcile P octokit reqId repoInfo d w) = Inl e"
  by (simp add: innerHandler_reconcile_def split: prod.splits sum.splits)

lemma innerHandler_deploy_throws:
  "\<exists>e. fst (innerHandler_deploy P reqId deploy w) = Inl e"
  by (simp add: innerHandler_deploy_def reconcile_throws split: option.splits sum.splits)

lemma innerHandler_throws: "\<exists>e. fst (innerHandler P reqId event w) = Inl e"
  by (simp add: innerHandler_def innerHandler_deploy_throws split: sum.splits)

text \<open>
  Past the early exits, with the repository resolved and a client at hand, \<open>innerHandler\<close>
  is the three steps.
\<close>

lemma innerHandler_deploy_reconciles:
  "narrow deploy = Some d \<Longrightarrow> n_context d \<noteq> Some ''deploy-preview'' \<Longrightarrow>
   parseRepoInfoFromCommitUrl (new_URL P) (n_commit_url d) = Inr repoInfo \<Longrightarrow>
   getOctokit P (Some repoInfo) = Inr octokit \<Longrightarrow>
   innerHandler_deploy P reqId deploy w = innerHandler_reconcile P octokit reqId repoInfo d w"
  by (simp add: innerHandler_deploy_def)

section \<open>State Mapper: the states and the description\<close>

lemma state_mapper_known:
  "commitStatusState ''building'' = JString ''pending'' \<and>
   deploymentStatusState ''building'' = JString ''in_progress'' \<and>
   commitStatusState ''ready'' = JString ''success'' \<and>
   deploymentStatusState ''ready'' = JString ''success''"
  by (simp add: commitStatusState_def deploymentStatusState_def object_lookup_def nullish_def)

text \<open>
  A state that is neither \<open>building\<close> nor \<open>ready\<close>, and no name of \<open>Object.prototype\<close>,
  maps to \<open>failure\<close> or \<open>error\<close>.
\<close>

lemma state_mapper_default:
  "s \<noteq> ''building'' \<Longrightarrow> s \<noteq> ''ready'' \<Longrightarrow> s \<notin> set Object_prototype \<Longrightarrow>
   commitStatusState s \<in> {JString ''failure'', JString ''error''} \<and>
   deploymentStatusState s \<in> {JString ''failure'', JString ''error''}"
  by (simp add: commitStatusState_def deploymentStatusState_def object_lookup_def nullish_def)

text \<open>
  C5. The claim: every state other than \<open>building\<close> and \<open>ready\<close> maps to the failure or
  error variant, in both mappings. The code indexes an object literal with the state, so
  a state that names a member of \<open>Object.prototype\<close> finds that member, which is not
  nullish, and \<open>?? "error"\<close> does not apply: for the state \<open>constructor\<close> both mappings
  give the inherited member, no state of the remote API at all.
\<close>

theorem state_mapper_inherited_member:
  "commitStatusState ''constructor'' = JInherited ''constructor'' \<and>
   deploymentStatusState ''constructor'' = JInherited ''constructor'' \<and>
   commitStatusState ''constructor'' \<notin> {JString ''failure'', JString ''error''} \<and>
   deploymentStatusState ''constructor'' \<notin> {JString ''failure'', JString ''error''}"
  by (simp add: commitStatusState_def deploymentStatusState_def object_lookup_def nullish_def
        Object_prototype_def)

text \<open>
  C7. The claim: the description names the context, \<open>Deploying to <context>...\<close> and so
  on, and the scenario gives \<open>Deploying to production...\<close>. The generator takes the state
  and the error message only, and its texts name no context.
\<close>

theorem description_names_no_context:
  "getCommitStatusDescription ''building'' None \<noteq> ''Deploying to production...''"
  by (simp add: getCommitStatusDescription_def)

text \<open>
  C7, as amended: the description is \<open>Deploying...\<close> for \<open>building\<close>,
  \<open>Deployment successful!\<close> for \<open>ready\<close>, and for any other state \<open>Deployment failed \<close>
  followed by \<open>: <error_message>\<close> when there is an error message and by \<open>.\<close> when there
  is none; the scenario's status is created with \<open>Deploying...\<close>.
\<close>

theorem description_of_state:
  "getCommitStatusDescription ''building'' e = ''Deploying...''
   \<and> getCommitStatusDescription ''ready'' e = ''Deployment successful!''
   \<and> (s \<noteq> ''building'' \<and> s \<noteq> ''ready'' \<longrightarrow>
        getCommitStatusDescription s (Some m) = ''Deployment failed : '' @ m
        \<and> getCommitStatusDescription s None = ''Deployment failed .'')
   \<and> (narrow deploy = Some d \<and> n_state d = ''building'' \<longrightarrow>
        ccs_description (commitStatusParams repoInfo d) = ''Deploying...'')"
  by (simp add: getCommitStatusDescription_def commitStatusParams_def)

theorem description_of_state_witness:
  "getCommitStatusDescription ''error'' (Some ''Build failed'')
     = ''Deployment failed : Build failed''
   \<and> getCommitStatusDescription ''error'' None = ''Deployment failed .''
   \<and> ccs_description (commitStatusParams \<lparr>owner = ''o'', repo = ''r''\<rparr> narrowed_scenario)
     = ''Deploying...''"
proof -
  have "narrow scenario = Some narrowed_scenario"
    by (simp add: narrow_def scenario_def narrowed_scenario_def)
  moreover have "n_state narrowed_scenario = ''building''"
    by (simp add: narrowed_scenario_def)
  ultimately show ?thesis
    using description_of_state [of None "''error''" "''Build failed''" scenario
        narrowed_scenario "\<lparr>owner = ''o'', repo = ''r''\<rparr>"]
    by simp
qed

section \<open>Identity Resolver\<close>

lemma resolver_accepts:
  "ctor commitUrl = Inr url \<Longrightarrow> hostname url = ''github.com'' \<Longrightarrow>
   filter (\<lambda>s. s \<noteq> []) (split_str CHR ''/'' (pathname url)) = a # b # c # rest \<Longrightarrow>
   c = ''commit'' \<Longrightarrow>
   parseRepoInfoFromCommitUrl ctor commitUrl = Inr \<lparr>owner = a, repo = b\<rparr>"
  by (simp add: parseRepoInfoFromCommitUrl_def)

lemma resolver_refuses:
  "ctor commitUrl = Inr url \<Longrightarrow>
   \<not> (hostname url = ''github.com''
      \<and> length (filter (\<lambda>s. s \<noteq> []) (split_str CHR ''/'' (pathname url))) \<ge> 3
      \<and> filter (\<lambda>s. s \<noteq> []) (split_str CHR ''/'' (pathname url)) ! 2 = ''commit'') \<Longrightarrow>
   parseRepoInfoFromCommitUrl ctor commitUrl
     = Inl (Response (''Unable to parse commit url '' @ commitUrl) 500)"
  by (auto simp add: parseRepoInfoFromCommitUrl_def Let_def)

lemma resolver_rethrows:
  "ctor commitUrl = Inl e \<Longrightarrow> parseRepoInfoFromCommitUrl ctor commitUrl = Inl e"
  by (simp add: parseRepoInfoFromCommitUrl_def)

text \<open>
  C6. The claim: a string that is no URL makes the resolver fail with a classified error,
  as a host or a shape that does not match does. The resolver calls \<open>new URL\<close> outside any
  \<open>try\<close>, so for such a string the \<open>TypeError\<close> of the constructor leaves the resolver as
  it is: a plain \<open>Error\<close>, not the \<open>Response\<close> the resolver throws two lines below.
\<close>

theorem resolver_throws_plain_error:
  "parseRepoInfoFromCommitUrl example_new_URL ''not a url'' = Inl (Error ''Invalid URL'' (Some ''{}''))
   \<and> (\<forall>message code.
        parseRepoInfoFromCommitUrl example_new_URL ''not a url'' \<noteq> Inl (Response message code))"
  by (simp add: parseRepoInfoFromCommitUrl_def example_new_URL_def)

section \<open>The error boundary\<close>

text \<open>
  What \<open>handler\<close> answers when line 190 does not throw: a \<open>Response\<close> gives its code and
  its message, and one line on the console with the request identifier, at debug level
  for the code 200 and at error level otherwise; an \<open>Error\<close> that \<open>JSON.stringify\<close>
  renders gives 500 with its message, and one line at error level; any other thrown value
  gives 200 with no body. \<open>innerHandler\<close> always throws.
\<close>

lemma boundary_responses:
  "(innerHandler P reqId event w = (Inl (Response message code), w') \<longrightarrow>
      handler P reqId event w =
        (Some \<lparr>statusCode = code, body = Some message\<rparr>,
         w'\<lparr>console := console w' @
              [if code = 200 then Debug (''['' @ reqId @ ''] '' @ message)
               else ErrorLog (''['' @ reqId @ ''] '' @ message)]\<rparr>))
   \<and> (innerHandler P reqId event w = (Inl (Error message (Some json)), w') \<longrightarrow>
      handler P reqId event w =
        (Some \<lparr>statusCode = 500, body = Some message\<rparr>,
         w'\<lparr>console := console w' @ [ErrorLog (''['' @ reqId @ ''] '' @ json)]\<rparr>))
   \<and> (innerHandler P reqId event w = (Inl Other, w') \<longrightarrow>
      handler P reqId event w = (Some \<lparr>statusCode = 200, body = None\<rparr>, w'))
   \<and> (\<exists>e w''. innerHandler P reqId event w = (Inl e, w''))"
proof -
  obtain e where "fst (innerHandler P reqId event w) = Inl e"
    using innerHandler_throws by blast
  then have "innerHandler P reqId event w = (Inl e, snd (innerHandler P reqId event w))"
    by (metis prod.collapse)
  then have "\<exists>e w''. innerHandler P reqId event w = (Inl e, w'')"
    by blast
  then show ?thesis
    by (simp add: handler_def console_debug_def console_error_def tag_def)
qed

lemma boundary_rejects:
  "innerHandler P reqId event w = (Inl (Error message None), w') \<Longrightarrow>
   handler P reqId event w = (None, w')"
  by (simp add: handler_def)

text \<open>
  C9. The claim: whatever is thrown while a notification is processed, \<open>handler\<close> catches it
  and returns a response, 500 with its message for a plain \<open>Error\<close>. The branch for an
  \<open>Error\<close> calls \<open>JSON.stringify(err)\<close> inside the \<open>catch\<close>, unguarded, before it returns.
  For an error that call cannot render (here one that \<open>fetch\<close> rejects with), the call
  throws out of the \<open>catch\<close>: no line is logged and \<open>handler\<close> returns no response.
\<close>

theorem unserialisable_error_escapes:
  "innerHandler (unsigned_platform\<lparr>fetch := (\<lambda>url. Inl (Error ''fetch failed'' None))\<rparr>) ''req''
     \<lparr>ev_body = Some ''ready'', ev_signature = None\<rparr> empty_world
     = (Inl (Error ''fetch failed'' None), empty_world)
   \<and> handler (unsigned_platform\<lparr>fetch := (\<lambda>url. Inl (Error ''fetch failed'' None))\<rparr>) ''req''
     \<lparr>ev_body = Some ''ready'', ev_signature = None\<rparr> empty_world
     = (None, empty_world)"
  by (simp add: handler_def innerHandler_def verifyAndParse_def check_signature_def
        fetchNetlifyDeploy_def id_only_def unsigned_platform_def example_platform_def)

section \<open>Parsing, fetching and the early exits\<close>

text \<open>
  C10. With no webhook secret, \<open>verifyAndParse\<close> keeps the deploy id of the parsed body
  and nothing else, so the state of what it returns is null and \<open>fetchNetlifyDeploy\<close>
  fetches the deploy by that id: a response that is not OK is thrown as a \<open>Response\<close> with
  code 502, and otherwise \<open>innerHandler\<close> goes on with the deploy the API returned. Two
  bodies that carry the same deploy id are processed alike, whatever else they hold.
\<close>

theorem payload_refetch:
  "env_JWT P = None \<longrightarrow>
     (ev_body event = Some b \<and> JSON_parse P b = Inr (Parsed deploy) \<longrightarrow>
        verifyAndParse P event = Inr (id_only (nd_id deploy))
        \<and> nd_state (id_only (nd_id deploy)) = None
        \<and> fetchNetlifyDeploy P (id_only (nd_id deploy)) =
            (case fetch P (''https://api.netlify.com/api/v1/deploys/'' @ nd_id deploy) of
               Inl e \<Rightarrow> Inl e
             | Inr r \<Rightarrow>
                 if fr_ok r then fr_json r
                 else Inl (Response (''Failed to fetch deploy details from Netlify API: ''
                             @ decimal (fr_status r)) 502))
        \<and> innerHandler P reqId event w =
            (case fetchNetlifyDeploy P (id_only (nd_id deploy)) of
               Inl e \<Rightarrow> (Inl e, w)
             | Inr live \<Rightarrow>
                 innerHandler_deploy P reqId live
                   (console_debug (tag reqId (''Processing deploy '' @ JSON_stringify P live)) w)))
     \<and> (ev_body e1 = Some b1 \<and> ev_body e2 = Some b2 \<and> JSON_parse P b1 = Inr (Parsed d1)
        \<and> JSON_parse P b2 = Inr (Parsed d2) \<and> nd_id d1 = nd_id d2 \<longrightarrow>
        innerHandler P reqId e1 w = innerHandler P reqId e2 w)"
  by (simp add: verifyAndParse_def check_signature_def fetchNetlifyDeploy_def id_only_def
        innerHandler_def split: sum.splits)

theorem payload_refetch_witness:
  "verifyAndParse unsigned_platform \<lparr>ev_body = Some ''ready'', ev_signature = None\<rparr>
     = Inr (id_only ''d1'')
   \<and> fetchNetlifyDeploy unsigned_platform (id_only ''d1'')
     = Inl (Response ''Failed to fetch deploy details from Netlify API: 404'' 502)
   \<and> innerHandler unsigned_platform ''req'' \<lparr>ev_body = Some ''ready'', ev_signature = None\<rparr>
       empty_world
     = innerHandler unsigned_platform ''req'' \<lparr>ev_body = Some ''error'', ev_signature = None\<rparr>
       empty_world"
proof -
  have jwt: "env_JWT unsigned_platform = None"
    by (simp add: unsigned_platform_def example_platform_def)
  have p1: "JSON_parse unsigned_platform ''ready'' = Inr (Parsed (scenario\<lparr>nd_state := Some ''ready''\<rparr>))"
    by (simp add: unsigned_platform_def example_platform_def)
  have p2: "JSON_parse unsigned_platform ''error'' = Inr (Parsed (scenario\<lparr>nd_state := Some ''error''\<rparr>))"
    by (simp add: unsigned_platform_def example_platform_def)
  have f: "fetch unsigned_platform ''https://api.netlify.com/api/v1/deploys/d1''
             = Inr \<lparr>fr_ok = False, fr_status = 404, fr_json = Inr scenario\<rparr>"
    by (simp add: unsigned_platform_def example_platform_def)
  have i: "nd_id (scenario\<lparr>nd_state := Some ''ready''\<rparr>) = ''d1''"
          "nd_id (scenario\<lparr>nd_state := Some ''error''\<rparr>) = ''d1''"
    by (simp_all add: scenario_def)
  have d: "decimal 404 = ''404''"
    by (simp add: decimal.simps digit_def)
  have "ev_body \<lparr>ev_body = Some ''ready'', ev_signature = None\<rparr> = Some ''ready''"
    and "ev_body \<lparr>ev_body = Some ''error'', ev_signature = None\<rparr> = Some ''error''"
    by simp_all
  with jwt p1 p2 i
    payload_refetch [where P = unsigned_platform
        and event = "\<lparr>ev_body = Some ''ready'', ev_signature = None\<rparr>" and b = "''ready''"
        and deploy = "scenario\<lparr>nd_state := Some ''ready''\<rparr>" and reqId = "''req''"
        and w = empty_world
        and ?e1.0 = "\<lparr>ev_body = Some ''ready'', ev_signature = None\<rparr>" and ?b1.0 = "''ready''"
        and ?e2.0 = "\<lparr>ev_body = Some ''error'', ev_signature = None\<rparr>" and ?b2.0 = "''error''"
        and ?d1.0 = "scenario\<lparr>nd_state := Some ''ready''\<rparr>"
        and ?d2.0 = "scenario\<lparr>nd_state := Some ''error''\<rparr>"]
  have "verifyAndParse unsigned_platform \<lparr>ev_body = Some ''ready'', ev_signature = None\<rparr>
          = Inr (id_only ''d1'')"
    and "fetchNetlifyDeploy unsigned_platform (id_only ''d1'') =
            (case fetch unsigned_platform (''https://api.netlify.com/api/v1/deploys/'' @ ''d1'') of
               Inl e \<Rightarrow> Inl e
             | Inr r \<Rightarrow>
                 if fr_ok r then fr_json r
                 else Inl (Response (''Failed to fetch deploy details from Netlify API: ''
                             @ decimal (fr_status r)) 502))"
    and "innerHandler unsigned_platform ''req'' \<lparr>ev_body = Some ''ready'', ev_signature = None\<rparr>
           empty_world
         = innerHandler unsigned_platform ''req'' \<lparr>ev_body = Some ''error'', ev_signature = None\<rparr>
           empty_world"
    by metis+
  then show ?thesis
    using f d by simp
qed

text \<open>
  The early exits, in the order of the code: no body, no signature or a signature
  \<open>validateSignature\<close> finds wrong, no deploy id; then, for the deploy fetched, a null
  field and the deploy preview. Each leaves the world as it was: no call, no log.
\<close>

lemma skip_policy_verify:
  "(ev_body event = None \<longrightarrow>
      verifyAndParse P event = Inl (Response ''Request body is empty.'' 400))
   \<and> (ev_body event = Some b \<and> env_JWT P = Some secret \<and> ev_signature event = None \<longrightarrow>
      verifyAndParse P event
        = Inl (Response ''Request is missing the x-webhook-signature header.'' 401))
   \<and> (ev_body event = Some b \<and> env_JWT P = Some secret \<and> ev_signature event = Some token
        \<and> validateSignature P token secret b = Inr False \<longrightarrow>
      verifyAndParse P event = Inl (Response ''Invalid signature.'' 401))
   \<and> (ev_body event = Some b \<and> check_signature P event b = Inr ()
        \<and> JSON_parse P b \<in> {Inr ParsedNull, Inr ParsedWithoutId} \<longrightarrow>
      verifyAndParse P event
        = Inl (Response ''Failed to get deploy ID from request body.'' 400))"
  by (auto simp add: verifyAndParse_def check_signature_def split: sum.splits)

lemma skip_policy_thrown:
  "verifyAndParse P event = Inl e \<Longrightarrow> innerHandler P reqId event w = (Inl e, w)"
  by (simp add: innerHandler_def)

lemma skip_policy_deploy:
  "(narrow deploy = None \<longrightarrow>
      innerHandler_deploy P reqId deploy w = (Inl (Response ''Skipped: No commit reference.'' 200), w))
   \<and> (narrow deploy = Some d \<and> n_context d = Some ''deploy-preview'' \<longrightarrow>
      innerHandler_deploy P reqId deploy w = (Inl (Response ''Skipped: Deploy preview.'' 200), w))"
  by (simp add: innerHandler_deploy_def)

lemma narrow_None_iff:
  "narrow deploy = None \<longleftrightarrow>
     nd_state deploy = None \<or> nd_commit_ref deploy = None \<or> nd_commit_url deploy = None
     \<or> nd_branch deploy = None \<or> nd_name deploy = None"
  by (simp add: narrow_def split: option.splits)

lemma rejected_token_rethrown:
  "ev_body event = Some b \<Longrightarrow> env_JWT P = Some secret \<Longrightarrow> ev_signature event = Some token \<Longrightarrow>
   jwt_verify P token secret = Inl e \<Longrightarrow> verifyAndParse P event = Inl e"
  by (simp add: verifyAndParse_def check_signature_def validateSignature_def)

text \<open>
  C4. The claim: with a secret configured, an invalid signature gives 401.
  \<open>validateSignature\<close> passes the header to \<open>jwt.verify\<close>, which throws on a token it
  rejects (malformed, signed with another key, another issuer); \<open>verifyAndParse\<close>
  catches nothing, so the throw reaches the boundary as a plain \<open>Error\<close>, and the
  response is 500. The 401 of \<open>Invalid signature.\<close> is left to the tokens that verify
  and carry another digest than the body's.
\<close>

theorem rejected_token_is_500:
  "handler (example_platform\<lparr>env_JWT := Some ''secret''\<rparr>) ''req''
     \<lparr>ev_body = Some ''{}'', ev_signature = Some ''forged''\<rparr> empty_world
   = (Some \<lparr>statusCode = 500, body = Some ''jwt malformed''\<rparr>,
      empty_world\<lparr>console := [ErrorLog ''[req] {}'']\<rparr>)"
  by (simp add: handler_def innerHandler_def verifyAndParse_def check_signature_def
        validateSignature_def example_platform_def console_error_def tag_def empty_world_def)


section \<open>The orchestrator on the model of the remote API\<close>

lemma github_ops [simp]:
  "graphql github_octokit = github_graphql"
  "createCommitStatus github_octokit = github_createCommitStatus"
  "listDeployments github_octokit = github_listDeployments"
  "createDeployment github_octokit = github_createDeployment"
  "createDeploymentStatus github_octokit = github_createDeploymentStatus"
  by (simp_all add: github_octokit_def)

text \<open>
  The deployment steps leave the commit statuses alone, and request no commit status.
\<close>

lemma github_deployment_frame:
  "innerHandler_deployment github_octokit reqId repoInfo d w = (res, w') \<Longrightarrow>
   gh_statuses (remote w') = gh_statuses (remote w) \<and>
   (CreateCommitStatus p \<in> set (calls w') \<longleftrightarrow> CreateCommitStatus p \<in> set (calls w))"
  by (auto simp add: innerHandler_deployment_def github_listDeployments_def
        github_createDeployment_def console_debug_def request_def Let_def
        split: list.splits if_splits)

lemma github_deployment_status_frame:
  "innerHandler_deployment_status P github_octokit reqId repoInfo d existing deployment w
     = (res, w') \<Longrightarrow>
   gh_statuses (remote w') = gh_statuses (remote w) \<and>
   (CreateCommitStatus p \<in> set (calls w') \<longleftrightarrow> CreateCommitStatus p \<in> set (calls w))"
  by (auto simp add: innerHandler_deployment_status_def github_createDeploymentStatus_def
        console_debug_def request_def Let_def
        split: if_splits js_value.splits sum.splits)

lemma github_reconcile_frame:
  assumes run: "innerHandler_reconcile P github_octokit reqId repoInfo d w = (res, w')"
  shows "gh_statuses (remote w')
     = gh_statuses (remote (snd (innerHandler_commit_status P github_octokit reqId repoInfo d w)))
   \<and> (CreateCommitStatus p \<in> set (calls w') \<longleftrightarrow>
       CreateCommitStatus p
         \<in> set (calls (snd (innerHandler_commit_status P github_octokit reqId repoInfo d w))))"
proof -
  obtain r1 w1 where s1: "innerHandler_commit_status P github_octokit reqId repoInfo d w = (r1, w1)"
    by (cases "innerHandler_commit_status P github_octokit reqId repoInfo d w")
  obtain r2 w2 where s2: "innerHandler_deployment github_octokit reqId repoInfo d w1 = (r2, w2)"
    by (cases "innerHandler_deployment github_octokit reqId repoInfo d w1")
  note f2 = github_deployment_frame [OF s2, of p]
  show ?thesis
  proof (cases r1)
    case (Inl e)
    with run s1 show ?thesis
      by (simp add: innerHandler_reconcile_def)
  next
    case r1: (Inr u)
    show ?thesis
    proof (cases r2)
      case (Inl e)
      with run s1 s2 r1 f2 show ?thesis
        by (simp add: innerHandler_reconcile_def)
    next
      case (Inr pair)
      obtain existing deployment where pair: "pair = (existing, deployment)"
        by (cases pair)
      obtain r3 w3 where s3: "innerHandler_deployment_status P github_octokit reqId repoInfo d
          existing deployment w2 = (r3, w3)"
        by (cases "innerHandler_deployment_status P github_octokit reqId repoInfo d
          existing deployment w2")
      note f3 = github_deployment_status_frame [OF s3, of p]
      from run s1 s2 s3 r1 Inr pair have "w' = w3"
        by (simp add: innerHandler_reconcile_def split: sum.splits)
      with f2 f3 s1 show ?thesis
        by simp
    qed
  qed
qed

lemma reconcile_rethrows:
  "innerHandler_commit_status P octokit reqId repoInfo d w = (Inl e, w1) \<Longrightarrow>
   innerHandler_reconcile P octokit reqId repoInfo d w = (Inl e, w1)"
  by (simp add: innerHandler_reconcile_def)

lemma github_commit_status_cases:
  assumes "innerHandler_commit_status P github_octokit reqId repoInfo d w = (res, w')"
  shows "(res = Inr () \<and> remote w' = remote w \<and> calls w' = calls w)
    \<or> (res = Inl invalid_request \<and> remote w' = remote w)
    \<or> (res = Inr () \<and>
        (\<exists>st. commitStatusState (n_state d) = JString st \<and>
           remote w' = (remote w)\<lparr>gh_statuses :=
             new_status repoInfo d st (gh_now (remote w)) # gh_statuses (remote w)\<rparr>))"
  using assms
  by (auto simp add: innerHandler_commit_status_def getCommitStatusByContext_def
        github_graphql_def github_createCommitStatus_def commitStatusParams_def new_status_def
        console_debug_def request_def Let_def
        split: if_splits js_value.splits)

lemma github_lookup_new:
  "getCommitStatusByContext github_octokit
     (g\<lparr>gh_statuses := new_status repoInfo d st now # rest\<rparr>) repoInfo (n_commit_ref d)
     (status_context d)
   = Inr (Some \<lparr>cs_context = status_context d, cs_state = st,
          cs_description = Some (getCommitStatusDescription (n_state d) (n_error_message d)),
          cs_targetUrl = Some (deploy_log_url d), cs_createdAt = now, cs_creator = None\<rparr>)"
  by (simp add: getCommitStatusByContext_def github_graphql_def new_status_def
        status_matches_def as_context_def)

lemma github_lookup_statuses:
  "gh_statuses g = gh_statuses g' \<Longrightarrow>
   getCommitStatusByContext github_octokit g repoInfo sha ctx
     = getCommitStatusByContext github_octokit g' repoInfo sha ctx"
  by (simp add: getCommitStatusByContext_def github_graphql_def)


lemma github_sequence:
  assumes run2: "innerHandler_reconcile P github_octokit reqId2 repoInfo d2 w0
           = (Inl (Response ''GitHub deployment and commit status updated successfully.'' 200), w2)"
    and fresh: "calls w0 = []"
    and wrote: "CreateCommitStatus (commitStatusParams repoInfo d2) \<in> set (calls w2)"
    and same: "n_commit_ref d1 = n_commit_ref d2" "n_branch d1 = n_branch d2"
              "n_name d1 = n_name d2"
    and t1: "(case n_updated_at d1 of None \<Rightarrow> Some 0 | Some u \<Rightarrow> Date_parse P u) = Some t1"
    and clock: "Date_parse P (gh_now (remote w0)) = Some now" "t1 < now"
    and run1: "innerHandler_reconcile P github_octokit reqId1 repoInfo d1
           \<lparr>remote = (remote w2)\<lparr>gh_now := later\<rparr>, calls = [], console = []\<rparr> = (res1, w1)"
  shows "(\<forall>p. CreateCommitStatus p \<notin> set (calls w1))
     \<and> (\<exists>st. commitStatusState (n_state d2) = JString st
          \<and> getCommitStatusByContext github_octokit (remote w1) repoInfo (n_commit_ref d2)
               (status_context d2)
             = Inr (Some \<lparr>cs_context = status_context d2, cs_state = st,
                 cs_description =
                   Some (getCommitStatusDescription (n_state d2) (n_error_message d2)),
                 cs_targetUrl = Some (deploy_log_url d2),
                 cs_createdAt = gh_now (remote w0), cs_creator = None\<rparr>))"
proof -
  let ?w2' = "\<lparr>remote = (remote w2)\<lparr>gh_now := later\<rparr>, calls = [], console = []\<rparr>"
  obtain r w where step2: "innerHandler_commit_status P github_octokit reqId2 repoInfo d2 w0 = (r, w)"
    by (cases "innerHandler_commit_status P github_octokit reqId2 repoInfo d2 w0")
  note frame2 = github_reconcile_frame [OF run2, of "commitStatusParams repoInfo d2"]
  have called: "CreateCommitStatus (commitStatusParams repoInfo d2) \<in> set (calls w)"
    using frame2 wrote step2 by simp
  have not_thrown: "r \<noteq> Inl invalid_request"
    using reconcile_rethrows [of P github_octokit reqId2 repoInfo d2 w0 invalid_request w]
      step2 run2 by (auto simp add: invalid_request_def)
  from github_commit_status_cases [OF step2] called fresh not_thrown
  obtain st where st: "commitStatusState (n_state d2) = JString st"
    and w: "remote w = (remote w0)\<lparr>gh_statuses :=
             new_status repoInfo d2 st (gh_now (remote w0)) # gh_statuses (remote w0)\<rparr>"
    by auto
  have statuses2: "gh_statuses (remote w2)
      = new_status repoInfo d2 st (gh_now (remote w0)) # gh_statuses (remote w0)"
    using frame2 step2 w by simp
  have ctx: "status_context d1 = status_context d2"
    using same by (simp add: status_context_def)
  have existing: "getCommitStatusByContext github_octokit (remote ?w2') repoInfo (n_commit_ref d1)
      (status_context d1)
     = Inr (Some \<lparr>cs_context = status_context d2, cs_state = st,
          cs_description = Some (getCommitStatusDescription (n_state d2) (n_error_message d2)),
          cs_targetUrl = Some (deploy_log_url d2), cs_createdAt = gh_now (remote w0),
          cs_creator = None\<rparr>)"
    using github_lookup_new [where g = "remote w2" and repoInfo = repoInfo and d = d2
        and st = st and now = "gh_now (remote w0)" and rest = "gh_statuses (remote w0)"]
      github_lookup_statuses [where g = "remote ?w2'"
        and g' = "(remote w2)\<lparr>gh_statuses := new_status repoInfo d2 st (gh_now (remote w0))
            # gh_statuses (remote w0)\<rparr>" and repoInfo = repoInfo
        and sha = "n_commit_ref d2" and ctx = "status_context d2"]
      statuses2 ctx same
    by simp
  have stale: "\<not> commitStatusDue P (Some \<lparr>cs_context = status_context d2, cs_state = st,
          cs_description = Some (getCommitStatusDescription (n_state d2) (n_error_message d2)),
          cs_targetUrl = Some (deploy_log_url d2), cs_createdAt = gh_now (remote w0),
          cs_creator = None\<rparr>) d1"
    using t1 clock
    by (cases "n_updated_at d1")
       (simp_all add: commitStatusDue_def js_le_def getTime_def notificationTime_def)
  note skipped = commit_status_skip [OF existing stale, of reqId1]
  note calls1 = commit_status_calls [OF existing, of P reqId1]
  note frame1 = github_reconcile_frame [OF run1]
  have no_call: "\<forall>p. CreateCommitStatus p \<notin> set (calls w1)"
    using frame1 calls1 stale by simp
  have "gh_statuses (remote w1) = gh_statuses (remote ?w2')"
    using frame1 skipped by simp
  then have "getCommitStatusByContext github_octokit (remote w1) repoInfo (n_commit_ref d2)
               (status_context d2)
     = getCommitStatusByContext github_octokit (remote ?w2') repoInfo (n_commit_ref d1)
               (status_context d1)"
    using github_lookup_statuses [where g = "remote w1" and g' = "remote ?w2'"] ctx same
    by simp
  with existing st no_call show ?thesis
    by simp
qed


section \<open>Deployment Reconciler\<close>

text \<open>The three ways through lines 39 to 168.\<close>

lemma reconcile_cases:
  assumes "innerHandler_reconcile P octokit reqId repoInfo d w = (res, w')"
  obtains
    (status_thrown) e where
      "innerHandler_commit_status P octokit reqId repoInfo d w = (Inl e, w')" "res = Inl e"
  | (deployment_thrown) w1 e where
      "innerHandler_commit_status P octokit reqId repoInfo d w = (Inr (), w1)"
      "innerHandler_deployment octokit reqId repoInfo d w1 = (Inl e, w')" "res = Inl e"
  | (deployment_status) w1 w2 existing deployment r3 where
      "innerHandler_commit_status P octokit reqId repoInfo d w = (Inr (), w1)"
      "innerHandler_deployment octokit reqId repoInfo d w1 = (Inr (existing, deployment), w2)"
      "innerHandler_deployment_status P octokit reqId repoInfo d existing deployment w2 = (r3, w')"
      "res = (case r3 of
                Inl e \<Rightarrow> Inl e
              | Inr u \<Rightarrow> Inl (Response
                  ''GitHub deployment and commit status updated successfully.'' 200))"
  using assms unfolding innerHandler_reconcile_def
  by (auto split: prod.splits sum.splits)

lemma github_commit_status_deployments:
  "innerHandler_commit_status P github_octokit reqId repoInfo d w = (res, w') \<Longrightarrow>
   gh_deployments (remote w') = gh_deployments (remote w) \<and>
   (CreateDeployment p \<in> set (calls w') \<longleftrightarrow> CreateDeployment p \<in> set (calls w))"
  by (auto simp add: innerHandler_commit_status_def getCommitStatusByContext_def
        github_graphql_def github_createCommitStatus_def
        console_debug_def request_def Let_def
        split: if_splits js_value.splits)

lemma github_commit_status_thrown:
  "innerHandler_commit_status P github_octokit reqId repoInfo d w = (Inl e, w') \<Longrightarrow>
   e = invalid_request"
  by (auto simp add: innerHandler_commit_status_def getCommitStatusByContext_def
        github_graphql_def github_createCommitStatus_def
        console_debug_def request_def Let_def
        split: if_splits js_value.splits)

lemma touch_matches:
  "deployment_matches ow rp tk env (touch i now x) = deployment_matches ow rp tk env x"
  by (simp add: deployment_matches_def touch_def)

lemma touch_matches_comp:
  "deployment_matches ow rp tk env \<circ> touch i now = deployment_matches ow rp tk env"
  by (rule ext) (simp add: touch_matches)

lemma github_createDeploymentStatus_count:
  "github_createDeploymentStatus g p = Inr g' \<Longrightarrow>
   length (deployments_of g' r tk env) = length (deployments_of g r tk env)"
  by (auto simp add: github_createDeploymentStatus_def deployments_of_def touch_matches_comp
        split: js_value.splits if_splits)

lemma github_createDeploymentStatus_thrown:
  "github_createDeploymentStatus g p = Inl e \<Longrightarrow> e = invalid_request"
  by (auto simp add: github_createDeploymentStatus_def split: js_value.splits if_splits)

lemma github_deployment_status_deployments:
  assumes "innerHandler_deployment_status P github_octokit reqId repoInfo d existing deployment w
     = (res, w')"
  shows "length (deployments_of (remote w') r tk env) = length (deployments_of (remote w) r tk env)
   \<and> (CreateDeployment p \<in> set (calls w') \<longleftrightarrow> CreateDeployment p \<in> set (calls w))
   \<and> (\<forall>e. res = Inl e \<longrightarrow> e = invalid_request)"
proof (cases "deploymentStatusDue P existing deployment d")
  case False
  with assms show ?thesis
    by (auto simp add: innerHandler_deployment_status_def console_debug_def)
next
  case True
  show ?thesis
  proof (cases "github_createDeploymentStatus (remote w)
                  (deploymentStatusParams repoInfo deployment d)")
    case (Inl e)
    with assms True github_createDeploymentStatus_thrown [OF Inl] show ?thesis
      by (auto simp add: innerHandler_deployment_status_def request_def)
  next
    case (Inr g)
    with assms True github_createDeploymentStatus_count [OF Inr, of r tk env] show ?thesis
      by (auto simp add: innerHandler_deployment_status_def request_def console_debug_def)
  qed
qed

lemma github_deployment_reused:
  "innerHandler_deployment github_octokit reqId repoInfo d w = (res, w') \<Longrightarrow>
   deployments_of (remote w) repoInfo (''deploy:netlify-'' @ n_id d) (environment d) \<noteq> [] \<Longrightarrow>
   remote w' = remote w \<and> calls w' = calls w \<and> (\<exists>e. res = Inr (Some e, e))"
  by (auto simp add: innerHandler_deployment_def github_listDeployments_def
        listDeploymentsParams_def deployments_of_def console_debug_def
        split: list.splits)

lemma github_deployment_created:
  "innerHandler_deployment github_octokit reqId repoInfo d w = (res, w') \<Longrightarrow>
   deployments_of (remote w) repoInfo (''deploy:netlify-'' @ n_id d) (environment d) = [] \<Longrightarrow>
   length (deployments_of (remote w') repoInfo (''deploy:netlify-'' @ n_id d) (environment d)) = 1
   \<and> calls w' = calls w @ [CreateDeployment (deploymentParams repoInfo d)]
   \<and> (\<exists>e. res = Inr (None, e))"
  by (auto simp add: innerHandler_deployment_def github_listDeployments_def
        github_createDeployment_def listDeploymentsParams_def deploymentParams_def
        deployments_of_def deployment_matches_def environment_def
        console_debug_def request_def Let_def
        split: list.splits)


lemma deployments_of_clock [simp]:
  "deployments_of (g\<lparr>gh_now := later\<rparr>) r tk env = deployments_of g r tk env"
  by (simp add: deployments_of_def)

lemma github_first_creates:
  assumes fresh: "deployments_of (remote w) repoInfo (''deploy:netlify-'' @ n_id d)
                    (environment d) = []"
    and run: "innerHandler_reconcile P github_octokit reqId repoInfo d w
           = (Inl (Response ''GitHub deployment and commit status updated successfully.'' 200), w')"
  shows "length (deployments_of (remote w') repoInfo (''deploy:netlify-'' @ n_id d)
                   (environment d)) = 1"
  using run
proof (cases rule: reconcile_cases)
  case (status_thrown e)
  with github_commit_status_thrown [OF status_thrown(1)] show ?thesis
    by (simp add: invalid_request_def)
next
  case (deployment_thrown w1 e)
  from github_commit_status_deployments [OF deployment_thrown(1)] fresh
  have "deployments_of (remote w1) repoInfo (''deploy:netlify-'' @ n_id d) (environment d) = []"
    by (simp add: deployments_of_def)
  with github_deployment_created [OF deployment_thrown(2)] show ?thesis
    by auto
next
  case (deployment_status w1 w2 existing deployment r3)
  from github_commit_status_deployments [OF deployment_status(1)] fresh
  have "deployments_of (remote w1) repoInfo (''deploy:netlify-'' @ n_id d) (environment d) = []"
    by (simp add: deployments_of_def)
  with github_deployment_created [OF deployment_status(2)]
    github_deployment_status_deployments [OF deployment_status(3), of repoInfo
      "''deploy:netlify-'' @ n_id d" "environment d"]
  show ?thesis
    by simp
qed

lemma github_second_reuses:
  assumes found: "deployments_of (remote w) repoInfo (''deploy:netlify-'' @ n_id d)
                    (environment d) \<noteq> []"
    and run: "innerHandler_reconcile P github_octokit reqId repoInfo d w = (res, w')"
  shows "length (deployments_of (remote w') repoInfo (''deploy:netlify-'' @ n_id d)
                   (environment d))
       = length (deployments_of (remote w) repoInfo (''deploy:netlify-'' @ n_id d)
                   (environment d))
     \<and> (CreateDeployment p \<in> set (calls w') \<longleftrightarrow> CreateDeployment p \<in> set (calls w))"
  using run
proof (cases rule: reconcile_cases)
  case (status_thrown e)
  with github_commit_status_deployments [OF status_thrown(1)] show ?thesis
    by (simp add: deployments_of_def)
next
  case (deployment_thrown w1 e)
  from github_commit_status_deployments [OF deployment_thrown(1), of p] found
  have w1: "deployments_of (remote w1) repoInfo (''deploy:netlify-'' @ n_id d) (environment d)
            = deployments_of (remote w) repoInfo (''deploy:netlify-'' @ n_id d) (environment d)"
    and c1: "CreateDeployment p \<in> set (calls w1) \<longleftrightarrow> CreateDeployment p \<in> set (calls w)"
    by (simp_all add: deployments_of_def)
  with github_deployment_reused [OF deployment_thrown(2)] found show ?thesis
    by simp
next
  case (deployment_status w1 w2 existing deployment r3)
  from github_commit_status_deployments [OF deployment_status(1), of p] found
  have w1: "deployments_of (remote w1) repoInfo (''deploy:netlify-'' @ n_id d) (environment d)
            = deployments_of (remote w) repoInfo (''deploy:netlify-'' @ n_id d) (environment d)"
    and c1: "CreateDeployment p \<in> set (calls w1) \<longleftrightarrow> CreateDeployment p \<in> set (calls w)"
    by (simp_all add: deployments_of_def)
  with github_deployment_reused [OF deployment_status(2)] found
    github_deployment_status_deployments [OF deployment_status(3), of repoInfo
      "''deploy:netlify-'' @ n_id d" "environment d" p]
  show ?thesis
    by simp
qed

text \<open>
  C2. The step lists the deployments of the task \<open>deploy:netlify-<id>\<close> and the
  environment \<open><branch> - <name>\<close>, one per page; when the list is empty it requests a
  deployment of that task and environment, and when it is not, it takes the first and
  requests none. On the model of the remote API: when the remote holds no deployment of
  the task and the environment, and a first notification has been processed to the end,
  the remote holds exactly one; a second notification with the same deploy id, branch and
  site name, processed after it, requests no deployment, and the remote still holds
  exactly one, however the second run ends.
\<close>

theorem deployment_idempotency:
  "(listDeployments octokit (remote w)
       \<lparr>ld_owner = owner repoInfo, ld_repo = repo repoInfo,
        ld_task = ''deploy:netlify-'' @ n_id d,
        ld_environment = n_branch d @ '' - '' @ n_name d, ld_per_page = 1\<rparr> = Inr found
     \<longrightarrow>
     (found = [] \<longrightarrow>
        calls (snd (innerHandler_deployment octokit reqId repoInfo d w))
          = calls w @ [CreateDeployment (deploymentParams repoInfo d)]
        \<and> cd_task (deploymentParams repoInfo d) = ''deploy:netlify-'' @ n_id d
        \<and> cd_environment (deploymentParams repoInfo d) = n_branch d @ '' - '' @ n_name d)
     \<and> (\<forall>e rest. found = e # rest \<longrightarrow>
          fst (innerHandler_deployment octokit reqId repoInfo d w) = Inr (Some e, e)
          \<and> calls (snd (innerHandler_deployment octokit reqId repoInfo d w)) = calls w
          \<and> remote (snd (innerHandler_deployment octokit reqId repoInfo d w)) = remote w))
   \<and> (deployments_of (remote w0) repo1 (''deploy:netlify-'' @ n_id d1)
          (n_branch d1 @ '' - '' @ n_name d1) = []
       \<and> n_id d2 = n_id d1 \<and> n_branch d2 = n_branch d1 \<and> n_name d2 = n_name d1
       \<and> innerHandler_reconcile P1 github_octokit reqId1 repo1 d1 w0
           = (Inl (Response ''GitHub deployment and commit status updated successfully.'' 200), w1)
       \<and> innerHandler_reconcile P2 github_octokit reqId2 repo1 d2
            \<lparr>remote = (remote w1)\<lparr>gh_now := later\<rparr>, calls = [], console = []\<rparr> = (res2, w2)
       \<longrightarrow>
       length (deployments_of (remote w1) repo1 (''deploy:netlify-'' @ n_id d1)
                 (n_branch d1 @ '' - '' @ n_name d1)) = 1
       \<and> length (deployments_of (remote w2) repo1 (''deploy:netlify-'' @ n_id d1)
                 (n_branch d1 @ '' - '' @ n_name d1)) = 1
       \<and> (\<forall>p. CreateDeployment p \<notin> set (calls w2)))"
  (is "(?listed \<longrightarrow> ?step) \<and> (?pair \<longrightarrow> ?one)")
proof (rule conjI)
  show "?listed \<longrightarrow> ?step"
  proof (rule impI)
    assume ?listed
    then have listed: "listDeployments octokit (remote w) (listDeploymentsParams repoInfo d)
        = Inr found"
      by (simp add: listDeploymentsParams_def environment_def)
    show ?step
      using deployment_missing [of octokit w repoInfo d reqId]
        deployment_found [of octokit w repoInfo d _ _ reqId] listed
      by (simp add: deploymentParams_def)
  qed
  show "?pair \<longrightarrow> ?one"
  proof (rule impI)
    assume ?pair
    then have fresh: "deployments_of (remote w0) repo1 (''deploy:netlify-'' @ n_id d1)
          (environment d1) = []"
      and same: "n_id d2 = n_id d1" "environment d2 = environment d1"
      and run1: "innerHandler_reconcile P1 github_octokit reqId1 repo1 d1 w0
           = (Inl (Response ''GitHub deployment and commit status updated successfully.'' 200), w1)"
      and run2: "innerHandler_reconcile P2 github_octokit reqId2 repo1 d2
            \<lparr>remote = (remote w1)\<lparr>gh_now := later\<rparr>, calls = [], console = []\<rparr> = (res2, w2)"
      by (simp_all add: environment_def)
    have one: "length (deployments_of (remote w1) repo1 (''deploy:netlify-'' @ n_id d1)
                 (environment d1)) = 1"
      by (rule github_first_creates [OF fresh run1])
    then have found: "deployments_of
        (remote \<lparr>remote = (remote w1)\<lparr>gh_now := later\<rparr>, calls = [], console = []\<rparr>)
        repo1 (''deploy:netlify-'' @ n_id d2) (environment d2) \<noteq> []"
      using same by auto
    have "\<And>p. length (deployments_of (remote w2) repo1 (''deploy:netlify-'' @ n_id d1)
                 (environment d1)) = 1 \<and> CreateDeployment p \<notin> set (calls w2)"
      using github_second_reuses [OF found run2] one same by simp
    with one show ?one
      by (simp add: environment_def)
  qed
qed


theorem deployment_idempotency_witness:
  "calls (snd (innerHandler_deployment github_octokit ''req-2'' example_repo narrowed_scenario
                 empty_world))
     = [CreateDeployment (deploymentParams example_repo narrowed_scenario)]
   \<and> fst (innerHandler_deployment github_octokit ''req-1'' example_repo older_notification
            after_scenario) = Inr (Some recorded_deployment, recorded_deployment)
   \<and> length (deployments_of (remote after_scenario) example_repo ''deploy:netlify-d1''
        ''main - site'') = 1
   \<and> length (deployments_of (remote (snd
          (innerHandler_reconcile example_platform github_octokit ''req-1'' example_repo
             older_notification
             \<lparr>remote = (remote after_scenario)\<lparr>gh_now := ''1970-01-01T00:00:03.000Z''\<rparr>,
              calls = [], console = []\<rparr>))) example_repo ''deploy:netlify-d1''
        ''main - site'') = 1
   \<and> (\<forall>p. CreateDeployment p \<notin> set (calls (snd
          (innerHandler_reconcile example_platform github_octokit ''req-1'' example_repo
             older_notification
             \<lparr>remote = (remote after_scenario)\<lparr>gh_now := ''1970-01-01T00:00:03.000Z''\<rparr>,
              calls = [], console = []\<rparr>))))"
proof -
  let ?run2 = "innerHandler_reconcile example_platform github_octokit ''req-1'' example_repo
             older_notification
             \<lparr>remote = (remote after_scenario)\<lparr>gh_now := ''1970-01-01T00:00:03.000Z''\<rparr>,
              calls = [], console = []\<rparr>"
  have none: "listDeployments github_octokit (remote empty_world)
       \<lparr>ld_owner = owner example_repo, ld_repo = repo example_repo,
        ld_task = ''deploy:netlify-'' @ n_id narrowed_scenario,
        ld_environment = n_branch narrowed_scenario @ '' - '' @ n_name narrowed_scenario,
        ld_per_page = 1\<rparr> = Inr []"
    by code_simp
  have one: "listDeployments github_octokit (remote after_scenario)
       \<lparr>ld_owner = owner example_repo, ld_repo = repo example_repo,
        ld_task = ''deploy:netlify-'' @ n_id older_notification,
        ld_environment = n_branch older_notification @ '' - '' @ n_name older_notification,
        ld_per_page = 1\<rparr> = Inr [recorded_deployment]"
    by code_simp
  have fresh: "deployments_of (remote empty_world) example_repo
      (''deploy:netlify-'' @ n_id narrowed_scenario)
      (n_branch narrowed_scenario @ '' - '' @ n_name narrowed_scenario) = []"
    by code_simp
  have same: "n_id older_notification = n_id narrowed_scenario"
    "n_branch older_notification = n_branch narrowed_scenario"
    "n_name older_notification = n_name narrowed_scenario"
    by (simp_all add: older_notification_def)
  have "fst (innerHandler_reconcile example_platform github_octokit ''req-2'' example_repo
            narrowed_scenario empty_world)
      = Inl (Response ''GitHub deployment and commit status updated successfully.'' 200)"
    by code_simp
  then have run1: "innerHandler_reconcile example_platform github_octokit ''req-2'' example_repo
        narrowed_scenario empty_world
      = (Inl (Response ''GitHub deployment and commit status updated successfully.'' 200),
         after_scenario)"
    unfolding after_scenario_def by (metis prod.collapse)
  have run2: "?run2 = (fst ?run2, snd ?run2)"
    by simp
  have evaluated: "calls empty_world = []"
    "n_id narrowed_scenario = ''d1''" "n_branch narrowed_scenario = ''main''"
    "n_name narrowed_scenario = ''site''"
    by (simp_all add: empty_world_def narrowed_scenario_def)
  from deployment_idempotency [where octokit = github_octokit and w = empty_world
      and repoInfo = example_repo and d = narrowed_scenario and found = "[]"
      and reqId = "''req-2''"
      and ?w0.0 = empty_world and ?repo1.0 = example_repo and ?d1.0 = narrowed_scenario
      and ?d2.0 = older_notification and ?P1.0 = example_platform and ?reqId1.0 = "''req-2''"
      and ?w1.0 = after_scenario and ?P2.0 = example_platform and ?reqId2.0 = "''req-1''"
      and later = "''1970-01-01T00:00:03.000Z''" and ?res2.0 = "fst ?run2"
      and ?w2.0 = "snd ?run2"]
    deployment_idempotency [where octokit = github_octokit and w = after_scenario
      and repoInfo = example_repo and d = older_notification
      and found = "[recorded_deployment]" and reqId = "''req-1''"
      and ?w0.0 = empty_world and ?repo1.0 = example_repo and ?d1.0 = narrowed_scenario
      and ?d2.0 = older_notification and ?P1.0 = example_platform and ?reqId1.0 = "''req-2''"
      and ?w1.0 = after_scenario and ?P2.0 = example_platform and ?reqId2.0 = "''req-1''"
      and later = "''1970-01-01T00:00:03.000Z''" and ?res2.0 = "fst ?run2"
      and ?w2.0 = "snd ?run2"]
    none one fresh same run1 run2
  show ?thesis
    by (simp add: evaluated)
qed




section \<open>The reconciler as a whole\<close>

text \<open>
  The two comparisons, with the notification's time written out: 0 for a null
  \<open>updated_at\<close>, and what \<open>Date\<close> reads otherwise.
\<close>

lemma commitStatusDue_updated_at:
  "commitStatusDue P existing d \<longleftrightarrow>
     existing = None \<or>
     (\<exists>s c t. existing = Some s \<and> Date_parse P (cs_createdAt s) = Some c \<and>
        (case n_updated_at d of None \<Rightarrow> Some 0 | Some u \<Rightarrow> Date_parse P u) = Some t \<and> c \<le> t)"
  by (cases "n_updated_at d") (simp_all add: commitStatusDue_iff getTime_def notificationTime_def)


lemma narrow_updated_at:
  "narrow deploy = Some d \<Longrightarrow> n_updated_at d = nd_updated_at deploy"
  by (auto simp add: narrow_def split: option.splits)

text \<open>What the deployment steps add to the calls is no commit status.\<close>

lemma deployment_calls:
  "\<exists>rest. calls (snd (innerHandler_deployment octokit reqId repoInfo d w)) = calls w @ rest
     \<and> (\<forall>p. CreateCommitStatus p \<notin> set rest)"
  by (simp add: innerHandler_deployment_def console_debug_def request_def Let_def
       split: sum.splits list.splits prod.splits option.splits)

lemma reconcile_commit_status_calls:
  assumes found: "getCommitStatusByContext octokit (remote w) repoInfo (n_commit_ref d)
                    (status_context d) = Inr existing"
  shows "\<exists>rest. calls (snd (innerHandler_reconcile P octokit reqId repoInfo d w))
           = calls w @ (if commitStatusDue P existing d
                        then [CreateCommitStatus (commitStatusParams repoInfo d)] else []) @ rest
         \<and> (\<forall>p. CreateCommitStatus p \<notin> set rest)"
proof -
  let ?first = "if commitStatusDue P existing d
                then [CreateCommitStatus (commitStatusParams repoInfo d)] else []"
  obtain res w' where run: "innerHandler_reconcile P octokit reqId repoInfo d w = (res, w')"
    by (cases "innerHandler_reconcile P octokit reqId repoInfo d w")
  note first = commit_status_calls [OF found, of P reqId]
  from run have "\<exists>rest. calls w' = calls w @ ?first @ rest \<and> (\<forall>p. CreateCommitStatus p \<notin> set rest)"
  proof (cases rule: reconcile_cases)
    case (status_thrown e)
    with first show ?thesis
      by simp
  next
    case (deployment_thrown w1 e)
    with first deployment_calls [of octokit reqId repoInfo d w1] show ?thesis
      by auto
  next
    case (deployment_status w1 w2 existing' deployment r3)
    from deployment_calls [of octokit reqId repoInfo d w1] deployment_status(2)
    obtain rest where rest: "calls w2 = calls w1 @ rest" "\<forall>p. CreateCommitStatus p \<notin> set rest"
      by auto
    from deployment_status_calls [of P octokit reqId repoInfo d existing' deployment w2]
      deployment_status(3)
    have "calls w' = calls w2 @
        (if deploymentStatusDue P existing' deployment d
         then [CreateDeploymentStatus (deploymentStatusParams repoInfo deployment d)] else [])"
      by simp
    with rest first deployment_status(1) show ?thesis
      by auto
  qed
  with run show ?thesis
    by simp
qed



section \<open>Status Reconciler\<close>

text \<open>
  C1. The claim: a notification of time T2 applied before one of an earlier time T1, for
  the same commit and context, leaves the status of T2 as the one the query returns. The
  code compares the earlier notification's time with the creation time the remote gave
  the status of T2. On the model of the remote API, with a remote whose clock shows 0 when
  it records the status of the notification of time 2000, the notification of time 1000
  that follows requests its own status, and that status is the one the query returns
  afterwards.
\<close>

theorem older_status_overwrites:
  "(case n_updated_at older_notification of None \<Rightarrow> Some 0
    | Some u \<Rightarrow> Date_parse example_platform u) = Some 1000
   \<and> (case n_updated_at narrowed_scenario of None \<Rightarrow> Some 0
      | Some u \<Rightarrow> Date_parse example_platform u) = Some 2000
   \<and> n_commit_ref older_notification = n_commit_ref narrowed_scenario
   \<and> status_context older_notification = status_context narrowed_scenario
   \<and> fst (innerHandler_reconcile example_platform github_octokit ''req-2'' example_repo
            narrowed_scenario behind_world)
       = Inl (Response ''GitHub deployment and commit status updated successfully.'' 200)
   \<and> CreateCommitStatus (commitStatusParams example_repo narrowed_scenario)
       \<in> set (calls after_scenario_behind)
   \<and> CreateCommitStatus (commitStatusParams example_repo older_notification)
       \<in> set (calls (snd (innerHandler_reconcile example_platform github_octokit ''req-1''
                             example_repo older_notification
                             \<lparr>remote = remote after_scenario_behind, calls = [],
                              console = []\<rparr>)))
   \<and> getCommitStatusByContext github_octokit
         (remote (snd (innerHandler_reconcile example_platform github_octokit ''req-1''
                         example_repo older_notification
                         \<lparr>remote = remote after_scenario_behind, calls = [],
                          console = []\<rparr>)))
         example_repo ''abc123'' ''Netlify (main - site)''
       = Inr (Some \<lparr>cs_context = ''Netlify (main - site)'', cs_state = ''success'',
                cs_description = Some ''Deployment successful!'',
                cs_targetUrl = Some ''https://app.netlify.com/sites/site/deploys/d1'',
                cs_createdAt = ''1970-01-01T00:00:00.000Z'', cs_creator = None\<rparr>)"
  by code_simp

text \<open>
  C1, as amended. For a notification past the early exits, with the existing status of
  its commit and context at hand, lines 39 to 168 request the commit status exactly when
  there is no existing status, or its creation time is at most the notification's time
  (both read by \<open>Date\<close>; the notification's is 0 when \<open>updated_at\<close> is null), and they
  request it once, before anything else; when the existing status is strictly newer the
  step requests nothing and leaves the remote as it is. On the model of the remote API:
  once a notification of time T2 has been processed to the end and its status recorded,
  a notification of an earlier time T1 for the same commit and context requests no commit
  status, and the query still returns the status of T2, provided the creation time the
  remote gave that status is later than T1.
\<close>

theorem status_reconciler_last_write_wins:
  "(narrow deploy = Some d \<and> n_context d \<noteq> Some ''deploy-preview''
      \<and> parseRepoInfoFromCommitUrl (new_URL P) (n_commit_url d) = Inr repoInfo
      \<and> getOctokit P (Some repoInfo) = Inr octokit
      \<and> getCommitStatusByContext octokit (remote w) repoInfo (n_commit_ref d)
           (status_context d) = Inr existing
      \<longrightarrow>
      (\<exists>rest. calls (snd (innerHandler_deploy P reqId deploy w)) =
          calls w @
            (if existing = None \<or>
                (\<exists>s c t. existing = Some s \<and> Date_parse P (cs_createdAt s) = Some c \<and>
                   (case nd_updated_at deploy of None \<Rightarrow> Some 0
                    | Some u \<Rightarrow> Date_parse P u) = Some t \<and> c \<le> t)
             then [CreateCommitStatus (commitStatusParams repoInfo d)] else []) @ rest
          \<and> (\<forall>p. CreateCommitStatus p \<notin> set rest))
      \<and> (\<forall>s c t. existing = Some s \<and> Date_parse P (cs_createdAt s) = Some c \<and>
             (case nd_updated_at deploy of None \<Rightarrow> Some 0
              | Some u \<Rightarrow> Date_parse P u) = Some t \<and> t < c \<longrightarrow>
           fst (innerHandler_commit_status P octokit reqId repoInfo d w) = Inr ()
           \<and> remote (snd (innerHandler_commit_status P octokit reqId repoInfo d w)) = remote w
           \<and> calls (snd (innerHandler_commit_status P octokit reqId repoInfo d w)) = calls w))
   \<and> (innerHandler_reconcile Q github_octokit reqId2 repo2 d2 w0
         = (Inl (Response ''GitHub deployment and commit status updated successfully.'' 200), w2)
       \<and> calls w0 = []
       \<and> CreateCommitStatus (commitStatusParams repo2 d2) \<in> set (calls w2)
       \<and> n_commit_ref d1 = n_commit_ref d2 \<and> n_branch d1 = n_branch d2
       \<and> n_name d1 = n_name d2
       \<and> (case n_updated_at d1 of None \<Rightarrow> Some 0 | Some u \<Rightarrow> Date_parse Q u) = Some t1
       \<and> (case n_updated_at d2 of None \<Rightarrow> Some 0 | Some u \<Rightarrow> Date_parse Q u) = Some t2
       \<and> t1 < t2
       \<and> Date_parse Q (gh_now (remote w0)) = Some now \<and> t1 < now
       \<and> innerHandler_reconcile Q github_octokit reqId1 repo2 d1
            \<lparr>remote = (remote w2)\<lparr>gh_now := later\<rparr>, calls = [], console = []\<rparr> = (res1, w1)
       \<longrightarrow>
       (\<forall>p. CreateCommitStatus p \<notin> set (calls w1))
       \<and> (\<exists>st. commitStatusState (n_state d2) = JString st
            \<and> getCommitStatusByContext github_octokit (remote w1) repo2 (n_commit_ref d2)
                 (status_context d2)
               = Inr (Some \<lparr>cs_context = status_context d2, cs_state = st,
                   cs_description =
                     Some (getCommitStatusDescription (n_state d2) (n_error_message d2)),
                   cs_targetUrl = Some (deploy_log_url d2),
                   cs_createdAt = gh_now (remote w0), cs_creator = None\<rparr>)))"
  (is "(?found \<longrightarrow> ?written \<and> ?skipped) \<and> (?sequence \<longrightarrow> ?latest)")
proof (rule conjI)
  show "?found \<longrightarrow> ?written \<and> ?skipped"
  proof (intro impI conjI allI)
    assume found: ?found
    then have existing: "getCommitStatusByContext octokit (remote w) repoInfo (n_commit_ref d)
        (status_context d) = Inr existing"
      and whole: "innerHandler_deploy P reqId deploy w
        = innerHandler_reconcile P octokit reqId repoInfo d w"
      and stamp: "nd_updated_at deploy = n_updated_at d"
      using narrow_updated_at [of deploy d]
      by (simp_all add: innerHandler_deploy_reconciles)
    show ?written
      using reconcile_commit_status_calls [OF existing, of P reqId]
        commitStatusDue_updated_at [of P existing d]
      by (simp add: whole stamp)
    fix s c t
    assume newer: "existing = Some s \<and> Date_parse P (cs_createdAt s) = Some c \<and>
             (case nd_updated_at deploy of None \<Rightarrow> Some 0
              | Some u \<Rightarrow> Date_parse P u) = Some t \<and> t < c"
    then have stale: "\<not> commitStatusDue P existing d"
      by (simp add: commitStatusDue_updated_at stamp)
    show "fst (innerHandler_commit_status P octokit reqId repoInfo d w) = Inr ()"
      and "remote (snd (innerHandler_commit_status P octokit reqId repoInfo d w)) = remote w"
      and "calls (snd (innerHandler_commit_status P octokit reqId repoInfo d w)) = calls w"
      using commit_status_skip [OF existing stale, of reqId]
        commit_status_calls [OF existing, of P reqId] stale
      by simp_all
  qed
  show "?sequence \<longrightarrow> ?latest"
  proof (rule impI)
    assume ?sequence
    then have run2: "innerHandler_reconcile Q github_octokit reqId2 repo2 d2 w0
         = (Inl (Response ''GitHub deployment and commit status updated successfully.'' 200), w2)"
      and fresh: "calls w0 = []"
      and wrote: "CreateCommitStatus (commitStatusParams repo2 d2) \<in> set (calls w2)"
      and same: "n_commit_ref d1 = n_commit_ref d2" "n_branch d1 = n_branch d2"
        "n_name d1 = n_name d2"
      and time: "(case n_updated_at d1 of None \<Rightarrow> Some 0 | Some u \<Rightarrow> Date_parse Q u) = Some t1"
      and clock: "Date_parse Q (gh_now (remote w0)) = Some now" "t1 < now"
      and run1: "innerHandler_reconcile Q github_octokit reqId1 repo2 d1
            \<lparr>remote = (remote w2)\<lparr>gh_now := later\<rparr>, calls = [], console = []\<rparr> = (res1, w1)"
      by simp_all
    show ?latest
      by (rule github_sequence [OF run2 fresh wrote same time clock run1])
  qed
qed


text \<open>The examples pass the early exits, resolve the repository and obtain the client.\<close>

lemma example_narrowed:
  "narrow scenario = Some narrowed_scenario"
  "narrow older_deploy = Some older_notification"
  "narrow untimed_deploy = Some untimed_notification"
  by (simp_all add: narrow_def scenario_def narrowed_scenario_def older_deploy_def
        older_notification_def untimed_deploy_def untimed_notification_def)

lemma example_not_preview:
  "n_context narrowed_scenario \<noteq> Some ''deploy-preview''"
  "n_context older_notification \<noteq> Some ''deploy-preview''"
  "n_context untimed_notification \<noteq> Some ''deploy-preview''"
  by (simp_all add: narrowed_scenario_def older_notification_def untimed_notification_def)

lemma example_resolved:
  "parseRepoInfoFromCommitUrl (new_URL example_platform) (n_commit_url narrowed_scenario)
     = Inr example_repo"
  "parseRepoInfoFromCommitUrl (new_URL example_platform) (n_commit_url older_notification)
     = Inr example_repo"
  "parseRepoInfoFromCommitUrl (new_URL example_platform) (n_commit_url untimed_notification)
     = Inr example_repo"
  by code_simp+

lemma example_client: "getOctokit example_platform (Some example_repo) = Inr github_octokit"
  by (simp add: getOctokit_def example_platform_def)

theorem status_reconciler_last_write_wins_witness:
  "(\<exists>rest. calls (snd (innerHandler_deploy example_platform ''req-2'' scenario empty_world))
        = CreateCommitStatus (commitStatusParams example_repo narrowed_scenario) # rest
      \<and> (\<forall>p. CreateCommitStatus p \<notin> set rest))
   \<and> calls (snd (innerHandler_commit_status example_platform github_octokit ''req-1''
                   example_repo older_notification after_scenario)) = calls after_scenario
   \<and> (\<forall>p. CreateCommitStatus p \<notin> set (calls (snd
          (innerHandler_reconcile example_platform github_octokit ''req-1'' example_repo
             older_notification
             \<lparr>remote = (remote after_scenario)\<lparr>gh_now := ''1970-01-01T00:00:03.000Z''\<rparr>,
              calls = [], console = []\<rparr>))))
   \<and> (\<exists>st. commitStatusState ''building'' = JString st
        \<and> getCommitStatusByContext github_octokit (remote (snd
          (innerHandler_reconcile example_platform github_octokit ''req-1'' example_repo
             older_notification
             \<lparr>remote = (remote after_scenario)\<lparr>gh_now := ''1970-01-01T00:00:03.000Z''\<rparr>,
              calls = [], console = []\<rparr>))) example_repo ''abc123'' ''Netlify (main - site)''
          = Inr (Some \<lparr>cs_context = ''Netlify (main - site)'', cs_state = st,
              cs_description = Some ''Deploying...'',
              cs_targetUrl = Some ''https://app.netlify.com/sites/site/deploys/d1'',
              cs_createdAt = ''1970-01-01T00:00:03.000Z'', cs_creator = None\<rparr>))"
proof -
  let ?w2' = "\<lparr>remote = (remote after_scenario)\<lparr>gh_now := ''1970-01-01T00:00:03.000Z''\<rparr>,
              calls = [], console = []\<rparr> :: github world"
  let ?run1 = "innerHandler_reconcile example_platform github_octokit ''req-1'' example_repo
             older_notification ?w2'"
  let ?recorded = "\<lparr>cs_context = ''Netlify (main - site)'', cs_state = ''pending'',
              cs_description = Some ''Deploying...'',
              cs_targetUrl = Some ''https://app.netlify.com/sites/site/deploys/d1'',
              cs_createdAt = ''1970-01-01T00:00:03.000Z'', cs_creator = None\<rparr>"
  have none: "getCommitStatusByContext github_octokit (remote empty_world) example_repo
      (n_commit_ref narrowed_scenario) (status_context narrowed_scenario) = Inr None"
    by code_simp
  have found: "getCommitStatusByContext github_octokit (remote after_scenario) example_repo
      (n_commit_ref older_notification) (status_context older_notification)
      = Inr (Some ?recorded)"
    by code_simp
  have "fst (innerHandler_reconcile example_platform github_octokit ''req-2'' example_repo
            narrowed_scenario empty_world)
      = Inl (Response ''GitHub deployment and commit status updated successfully.'' 200)"
    by code_simp
  then have run2: "innerHandler_reconcile example_platform github_octokit ''req-2'' example_repo
        narrowed_scenario empty_world
      = (Inl (Response ''GitHub deployment and commit status updated successfully.'' 200),
         after_scenario)"
    unfolding after_scenario_def by (metis prod.collapse)
  have fresh: "calls empty_world = []"
    by (simp add: empty_world_def)
  have wrote: "CreateCommitStatus (commitStatusParams example_repo narrowed_scenario)
      \<in> set (calls after_scenario)"
    by code_simp
  have same: "n_commit_ref older_notification = n_commit_ref narrowed_scenario"
    "n_branch older_notification = n_branch narrowed_scenario"
    "n_name older_notification = n_name narrowed_scenario"
    by (simp_all add: older_notification_def)
  have times: "(case nd_updated_at older_deploy of None \<Rightarrow> Some 0
      | Some u \<Rightarrow> Date_parse example_platform u) = Some 1000"
    "(case n_updated_at older_notification of None \<Rightarrow> Some 0
      | Some u \<Rightarrow> Date_parse example_platform u) = Some 1000"
    "(case n_updated_at narrowed_scenario of None \<Rightarrow> Some 0
      | Some u \<Rightarrow> Date_parse example_platform u) = Some 2000"
    "Date_parse example_platform (gh_now (remote empty_world)) = Some 3000"
    "Date_parse example_platform (cs_createdAt ?recorded) = Some 3000"
    by code_simp+
  have run1: "?run1 = (fst ?run1, snd ?run1)"
    by simp
  have evaluated: "n_state narrowed_scenario = ''building''"
    "n_error_message narrowed_scenario = None"
    "n_commit_ref narrowed_scenario = ''abc123''"
    "status_context narrowed_scenario = ''Netlify (main - site)''"
    "deploy_log_url narrowed_scenario = ''https://app.netlify.com/sites/site/deploys/d1''"
    "gh_now (remote empty_world) = ''1970-01-01T00:00:03.000Z''"
    "getCommitStatusDescription ''building'' None = ''Deploying...''"
    by (simp_all add: narrowed_scenario_def status_context_def deploy_log_url_def
          empty_world_def empty_github_def getCommitStatusDescription_def)
  from status_reconciler_last_write_wins [where deploy = scenario and d = narrowed_scenario
      and P = example_platform and repoInfo = example_repo and octokit = github_octokit
      and w = empty_world and existing = None and reqId = "''req-2''", THEN conjunct1]
    example_narrowed example_not_preview example_resolved example_client none fresh
  have first: "\<exists>rest. calls (snd (innerHandler_deploy example_platform ''req-2'' scenario
                     empty_world))
        = CreateCommitStatus (commitStatusParams example_repo narrowed_scenario) # rest
      \<and> (\<forall>p. CreateCommitStatus p \<notin> set rest)"
    by simp
  from status_reconciler_last_write_wins [where deploy = older_deploy
      and d = older_notification and P = example_platform and repoInfo = example_repo
      and octokit = github_octokit and w = after_scenario and existing = "Some ?recorded"
      and reqId = "''req-1''", THEN conjunct1]
    example_narrowed example_not_preview example_resolved example_client found times
  have stale: "calls (snd (innerHandler_commit_status example_platform github_octokit ''req-1''
                   example_repo older_notification after_scenario)) = calls after_scenario"
    by simp
  from status_reconciler_last_write_wins [where Q = example_platform
      and ?reqId2.0 = "''req-2''" and ?repo2.0 = example_repo
      and ?d2.0 = narrowed_scenario and ?w0.0 = empty_world and ?w2.0 = after_scenario
      and ?d1.0 = older_notification and ?t1.0 = 1000 and ?t2.0 = 2000 and now = 3000
      and ?reqId1.0 = "''req-1''" and later = "''1970-01-01T00:00:03.000Z''"
      and ?res1.0 = "fst ?run1" and ?w1.0 = "snd ?run1", THEN conjunct2]
    run2 fresh wrote same times run1
  have "(\<forall>p. CreateCommitStatus p \<notin> set (calls (snd ?run1)))
   \<and> (\<exists>st. commitStatusState ''building'' = JString st
        \<and> getCommitStatusByContext github_octokit (remote (snd ?run1)) example_repo ''abc123''
             ''Netlify (main - site)''
          = Inr (Some \<lparr>cs_context = ''Netlify (main - site)'', cs_state = st,
              cs_description = Some ''Deploying...'',
              cs_targetUrl = Some ''https://app.netlify.com/sites/site/deploys/d1'',
              cs_createdAt = ''1970-01-01T00:00:03.000Z'', cs_creator = None\<rparr>))"
    by (simp add: evaluated)
  with first stale show ?thesis
    by simp
qed


section \<open>The deployment status\<close>



section \<open>A notification with no timestamp\<close>




end
